theory Spec2Isabelle
  imports Main "HOL-Library.Word"
begin

unbundle bit_operations_syntax

section \<open>Byte buffers and hex strings\<close>

text \<open>
  A Node.js \<^verbatim>\<open>Buffer\<close> is a list of bytes; a JavaScript string is a list of
  characters of one byte each (the UTF-8 encoding of the text).
\<close>

type_synonym byte = "8 word"
type_synonym Buffer = "byte list"
type_synonym hashFn = "Buffer \<Rightarrow> Buffer"
type_synonym lane = int

text \<open>\<^verbatim>\<open>Buffer.compare(a, b)\<close>: bytewise lexicographic order, \<open>-1\<close>, \<open>0\<close> or \<open>1\<close>.\<close>

fun Buffer_compare :: "Buffer \<Rightarrow> Buffer \<Rightarrow> int" where
  "Buffer_compare [] [] = 0"
| "Buffer_compare [] (y # ys) = -1"
| "Buffer_compare (x # xs) [] = 1"
| "Buffer_compare (x # xs) (y # ys) =
     (if x < y then -1 else if y < x then 1 else Buffer_compare xs ys)"

text \<open>The value of one hexadecimal digit, in either case.\<close>

definition hex_value :: "char \<Rightarrow> nat option" where
  "hex_value c =
     (let n = (of_char c :: nat) in
      if 48 \<le> n \<and> n \<le> 57 then Some (n - 48)
      else if 97 \<le> n \<and> n \<le> 102 then Some (n - 87)
      else if 65 \<le> n \<and> n \<le> 70 then Some (n - 55)
      else None)"

text \<open>
  \<^verbatim>\<open>Buffer.from(s, 'hex')\<close>: two digits give one byte; decoding stops at the first
  pair that is not two hexadecimal digits, and a trailing single character is dropped.
\<close>

fun Buffer_from_hex :: "string \<Rightarrow> Buffer" where
  "Buffer_from_hex (a # b # cs) =
     (case hex_value a of
        None \<Rightarrow> []
      | Some hi \<Rightarrow>
          (case hex_value b of
             None \<Rightarrow> []
           | Some lo \<Rightarrow> of_nat (16 * hi + lo) # Buffer_from_hex cs))"
| "Buffer_from_hex [a] = []"
| "Buffer_from_hex [] = []"

definition hex_digit :: "nat \<Rightarrow> char" where
  "hex_digit n = ''0123456789abcdef'' ! n"

text \<open>\<^verbatim>\<open>buf.toString('hex')\<close>: two lower-case digits per byte.\<close>

definition Buffer_toString_hex :: "Buffer \<Rightarrow> string" where
  "Buffer_toString_hex bs =
     concat (map (\<lambda>b. [hex_digit (unat b div 16), hex_digit (unat b mod 16)]) bs)"

text \<open>\<^verbatim>\<open>s.replace('0x', '')\<close>: the first occurrence of \<^verbatim>\<open>0x\<close>, wherever it is, is removed.\<close>

fun replace_0x :: "string \<Rightarrow> string" where
  "replace_0x (c # d # cs) =
     (if c = CHR ''0'' \<and> d = CHR ''x'' then cs else c # replace_0x (d # cs))"
| "replace_0x [c] = [c]"
| "replace_0x [] = []"

section \<open>Keccak-256\<close>

text \<open>
  The hash function of the imported package \<^verbatim>\<open>keccak256\<close>: Keccak with rate 1088
  and capacity 512, the padding \<open>0x01 \<dots> 0x80\<close> and 32 bytes of output.  The state is
  25 lanes of 64 bits, lane \<open>(x, y)\<close> at index \<open>x + 5 * y\<close>; a lane is an integer in
  \<open>[0, 2 ^ 64)\<close> and the rotation writes the wrap-around out.
\<close>

definition rotl64 :: "lane \<Rightarrow> nat \<Rightarrow> lane" where
  "rotl64 w n = take_bit 64 (push_bit n w) OR drop_bit (64 - n) w"

definition round_constants :: "lane list" where
  "round_constants =
    [0x0000000000000001, 0x0000000000008082, 0x800000000000808A, 0x8000000080008000,
     0x000000000000808B, 0x0000000080000001, 0x8000000080008081, 0x8000000000008009,
     0x000000000000008A, 0x0000000000000088, 0x0000000080008009, 0x000000008000000A,
     0x000000008000808B, 0x800000000000008B, 0x8000000000008089, 0x8000000000008003,
     0x8000000000008002, 0x8000000000000080, 0x000000000000800A, 0x800000008000000A,
     0x8000000080008081, 0x8000000000008080, 0x0000000080000001, 0x8000000080008008]"

definition rho_offsets :: "nat list" where
  "rho_offsets = [0, 1, 62, 28, 27,  36, 44, 6, 55, 20,  3, 10, 43, 25, 39,
                  41, 45, 15, 21, 8,  18, 2, 61, 56, 14]"

definition theta_c :: "lane list \<Rightarrow> lane list" where
  "theta_c a =
     map (\<lambda>x. a ! x XOR a ! (x + 5) XOR a ! (x + 10) XOR a ! (x + 15) XOR a ! (x + 20)) [0..<5]"

definition theta_d :: "lane list \<Rightarrow> lane list" where
  "theta_d c = map (\<lambda>x. c ! ((x + 4) mod 5) XOR rotl64 (c ! ((x + 1) mod 5)) 1) [0..<5]"

definition theta_apply :: "lane list \<Rightarrow> lane list \<Rightarrow> lane list" where
  "theta_apply a d = map (\<lambda>i. a ! i XOR d ! (i mod 5)) [0..<25]"

definition theta :: "lane list \<Rightarrow> lane list" where
  "theta a = theta_apply a (theta_d (theta_c a))"

definition pi_source :: "nat \<Rightarrow> nat" where
  "pi_source j = ((j mod 5 + 3 * (j div 5)) mod 5) + 5 * (j mod 5)"

definition rho_pi :: "lane list \<Rightarrow> lane list" where
  "rho_pi a = map (\<lambda>j. rotl64 (a ! pi_source j) (rho_offsets ! pi_source j)) [0..<25]"

definition chi :: "lane list \<Rightarrow> lane list" where
  "chi b =
     map (\<lambda>i. b ! i XOR (NOT (b ! ((i + 1) mod 5 + 5 * (i div 5)))
                          AND b ! ((i + 2) mod 5 + 5 * (i div 5)))) [0..<25]"

definition iota :: "lane \<Rightarrow> lane list \<Rightarrow> lane list" where
  "iota rc a = (a ! 0 XOR rc) # tl a"

definition keccak_round :: "lane list \<Rightarrow> lane \<Rightarrow> lane list" where
  "keccak_round a rc = iota rc (chi (rho_pi (theta a)))"

definition keccak_f :: "lane list \<Rightarrow> lane list" where
  "keccak_f a = foldl keccak_round a round_constants"

fun lane_of_bytes :: "byte list \<Rightarrow> lane" where
  "lane_of_bytes [] = 0"
| "lane_of_bytes (b # bs) = uint b + 256 * lane_of_bytes bs"

fun bytes_of_lane :: "nat \<Rightarrow> lane \<Rightarrow> byte list" where
  "bytes_of_lane 0 w = []"
| "bytes_of_lane (Suc n) w = word_of_int (take_bit 8 w) # bytes_of_lane n (drop_bit 8 w)"

fun lanes_of_block :: "nat \<Rightarrow> byte list \<Rightarrow> lane list" where
  "lanes_of_block 0 bs = []"
| "lanes_of_block (Suc n) bs = lane_of_bytes (take 8 bs) # lanes_of_block n (drop 8 bs)"

definition absorb_block :: "lane list \<Rightarrow> byte list \<Rightarrow> lane list" where
  "absorb_block a blk = keccak_f (map2 (XOR) a (lanes_of_block 25 blk))"

definition pad_last :: "byte list \<Rightarrow> byte list" where
  "pad_last m =
     (if length m = 135 then m @ [0x81] else m @ [0x01] @ replicate (134 - length m) 0 @ [0x80])"

fun absorb :: "lane list \<Rightarrow> byte list \<Rightarrow> lane list" where
  "absorb a m =
     (if length m < 136 then absorb_block a (pad_last m)
      else absorb (absorb_block a (take 136 m)) (drop 136 m))"

declare absorb.simps [simp del]

definition keccak256 :: "Buffer \<Rightarrow> Buffer" where
  "keccak256 m = concat (map (bytes_of_lane 8) (take 4 (absorb (replicate 25 0) m)))"

section \<open>The Merkle tree library\<close>

text \<open>
  Modelled from the spec: the class \<^verbatim>\<open>MerkleTree\<close> of the imported package
  \<^verbatim>\<open>merkletreejs\<close> is not part of the sources.  Section 4.2 of the specification
  describes the tree: adjacent nodes are paired, the two siblings are sorted bytewise
  before they are concatenated and hashed (option \<^verbatim>\<open>sortPairs\<close>), the last node of a
  level of odd length is promoted unchanged, the root is the single top hash, and the
  proof of a leaf lists the siblings met from the leaf to the root.  The leaves are not
  hashed again (\<^verbatim>\<open>hashLeaves: false\<close>).  An element of a proof carries the side on which
  the sibling stands.  Verification folds the proof into the target: with
  \<^verbatim>\<open>sortPairs\<close> it orders each pair bytewise, without it (the default of the options) it
  puts the sibling on the side the element names.
\<close>

datatype Position = Left | Right

record ProofItem =
  position :: Position
  node_data :: Buffer

text \<open>\<^verbatim>\<open>[l, r].sort(Buffer.compare)\<close> followed by \<^verbatim>\<open>Buffer.concat\<close>.\<close>

definition sorted_concat :: "Buffer \<Rightarrow> Buffer \<Rightarrow> Buffer" where
  "sorted_concat l r = (if Buffer_compare l r \<le> 0 then l @ r else r @ l)"

fun next_layer :: "hashFn \<Rightarrow> Buffer list \<Rightarrow> Buffer list" where
  "next_layer h (l # r # rest) = h (sorted_concat l r) # next_layer h rest"
| "next_layer h [l] = [l]"
| "next_layer h [] = []"

text \<open>\<^verbatim>\<open>createHashes\<close>: the layers, leaves first, until a layer has at most one node.\<close>

function createHashes :: "hashFn \<Rightarrow> Buffer list \<Rightarrow> Buffer list list" where
  "createHashes h nodes =
     (if length nodes > 1 then nodes # createHashes h (next_layer h nodes) else [nodes])"
  by pat_completeness auto
termination
proof (relation "measure (\<lambda>(h, nodes). length nodes)")
  show "wf (measure (\<lambda>(h, nodes). length nodes))"
    by simp
next
  fix h :: hashFn and nodes :: "Buffer list"
  have len: "length (next_layer h ns) = (length ns + 1) div 2" for ns
    by (induction h ns rule: next_layer.induct) simp_all
  assume "1 < length nodes"
  then show "((h, next_layer h nodes), (h, nodes)) \<in> measure (\<lambda>(h, nodes). length nodes)"
    by (simp add: len)
qed

declare createHashes.simps [simp del]

text \<open>\<^verbatim>\<open>getRoot\<close>: the first node of the last layer, the empty buffer when there is none.\<close>

definition getRoot :: "Buffer list list \<Rightarrow> Buffer" where
  "getRoot layers =
     (if layers = [] then []
      else (case last layers of [] \<Rightarrow> [] | r # rest \<Rightarrow> r))"

text \<open>The index of the last leaf equal to the given one, as the search loop leaves it.\<close>

fun find_leaf_index :: "Buffer \<Rightarrow> Buffer list \<Rightarrow> nat \<Rightarrow> nat option \<Rightarrow> nat option" where
  "find_leaf_index leaf [] i found = found"
| "find_leaf_index leaf (l # ls) i found =
     find_leaf_index leaf ls (Suc i) (if Buffer_compare leaf l = 0 then Some i else found)"

text \<open>
  One step of the walk of \<^verbatim>\<open>getProof\<close>: the node paired with the node at \<open>index\<close> in
  its layer, if the layer has one, with the side it stands on.
\<close>

definition sibling :: "Buffer list \<Rightarrow> nat \<Rightarrow> ProofItem list" where
  "sibling layer index =
     (let isRightNode = (index mod 2 = 1);
          pairIndex = (if isRightNode then index - 1 else index + 1)
      in if pairIndex < length layer
         then [\<lparr>position = (if isRightNode then Left else Right), node_data = layer ! pairIndex\<rparr>]
         else [])"

fun proof_walk :: "Buffer list list \<Rightarrow> nat \<Rightarrow> ProofItem list" where
  "proof_walk [] index = []"
| "proof_walk (layer # layers) index = sibling layer index @ proof_walk layers (index div 2)"

definition getProof :: "Buffer list list \<Rightarrow> Buffer \<Rightarrow> ProofItem list" where
  "getProof layers leaf =
     (case find_leaf_index leaf (hd layers) 0 None of
        None \<Rightarrow> []
      | Some index \<Rightarrow> proof_walk layers index)"

text \<open>
  \<^verbatim>\<open>verify(proof, targetNode, root)\<close> of a tree made with the given \<^verbatim>\<open>sortPairs\<close>
  option.  A buffer is an object, so the guard \<^verbatim>\<open>!targetNode || !root\<close> never fires.
\<close>

fun verify_fold :: "hashFn \<Rightarrow> bool \<Rightarrow> ProofItem list \<Rightarrow> Buffer \<Rightarrow> Buffer" where
  "verify_fold h sortPairs [] hash = hash"
| "verify_fold h sortPairs (node # nodes) hash =
     verify_fold h sortPairs nodes
       (if sortPairs
        then (if Buffer_compare hash (node_data node) = -1
              then h (hash @ node_data node) else h (node_data node @ hash))
        else (if position node = Left
              then h (node_data node @ hash) else h (hash @ node_data node)))"

definition MerkleTree_verify ::
  "hashFn \<Rightarrow> bool \<Rightarrow> ProofItem list \<Rightarrow> Buffer \<Rightarrow> Buffer \<Rightarrow> bool" where
  "MerkleTree_verify h sortPairs prf targetNode root =
     (Buffer_compare (verify_fold h sortPairs prf targetNode) root = 0)"

section \<open>Readings and their fingerprint\<close>

text \<open>
  \<^verbatim>\<open>SensorDataPayload\<close> and \<^verbatim>\<open>ProcessedSensorData\<close> share the four fields that are
  hashed.  \<^verbatim>\<open>readings\<close> is the measurement object as the list of its entries in
  property order, which for keys that are not array indices is the order of insertion;
  array indices come first, in ascending order; the keys of an object are distinct.
  Measurement values and timestamps are integral numbers here (the text JavaScript
  prints for a fractional number is not modelled).
\<close>

record SensorFields =
  serialNumber :: string
  sensorId :: string
  timestamp :: int
  readings :: "(string \<times> int) list"

record SensorDataPayload = SensorFields +
  deviceSignature :: string

record ProcessedSensorData = SensorFields +
  id' :: string
  receivedAt :: int
  dataHash :: string

text \<open>\<^verbatim>\<open>JSON.stringify\<close> of a string: quoted, with the escapes of the JSON grammar.\<close>

definition json_escape :: "char \<Rightarrow> string" where
  "json_escape c =
     (if c = CHR 0x22 then [CHR 0x5C, CHR 0x22]
      else if c = CHR 0x5C then [CHR 0x5C, CHR 0x5C]
      else if c = CHR 0x08 then [CHR 0x5C, CHR ''b'']
      else if c = CHR 0x0C then [CHR 0x5C, CHR ''f'']
      else if c = CHR 0x0A then [CHR 0x5C, CHR ''n'']
      else if c = CHR 0x0D then [CHR 0x5C, CHR ''r'']
      else if c = CHR 0x09 then [CHR 0x5C, CHR ''t'']
      else if (of_char c :: nat) < 32
        then [CHR 0x5C, CHR ''u'', CHR ''0'', CHR ''0'',
              hex_digit (of_char c div 16), hex_digit (of_char c mod 16)]
      else [c])"

definition json_string :: "string \<Rightarrow> string" where
  "json_string s = [CHR 0x22] @ concat (map json_escape s) @ [CHR 0x22]"

text \<open>
  The decimal digits of a natural number, and the text of an integral number: what
  JavaScript prints for an integer that a double holds exactly and that is below
  \<open>10 ^ 21\<close> in magnitude (from there on JavaScript prints an exponent).
\<close>

definition decimal_digit :: "nat \<Rightarrow> char" where
  "decimal_digit n = ''0123456789'' ! n"

fun digits :: "nat \<Rightarrow> string" where
  "digits n =
     (if n < 10 then [decimal_digit n] else digits (n div 10) @ [decimal_digit (n mod 10)])"

declare digits.simps [simp del]

definition Number_toString :: "int \<Rightarrow> string" where
  "Number_toString n = (if n < 0 then CHR ''-'' # digits (nat (- n)) else digits (nat n))"

fun join_commas :: "string list \<Rightarrow> string" where
  "join_commas [] = []"
| "join_commas [s] = s"
| "join_commas (s # t # ts) = s @ '','' @ join_commas (t # ts)"

definition json_readings :: "(string \<times> int) list \<Rightarrow> string" where
  "json_readings rs =
     ''{'' @ join_commas (map (\<lambda>(k, v). json_string k @ '':'' @ Number_toString v) rs) @ ''}''"

text \<open>
  The argument of the hash in \<^verbatim>\<open>createDataHash\<close>: \<^verbatim>\<open>JSON.stringify\<close> of the object
  literal with the keys \<^verbatim>\<open>serialNumber\<close>, \<^verbatim>\<open>sensorId\<close>, \<^verbatim>\<open>timestamp\<close>, \<^verbatim>\<open>readings\<close>.
\<close>

definition dataString :: "'a SensorFields_scheme \<Rightarrow> string" where
  "dataString d =
     ''{'' @ json_string ''serialNumber'' @ '':'' @ json_string (serialNumber d)
     @ '','' @ json_string ''sensorId'' @ '':'' @ json_string (sensorId d)
     @ '','' @ json_string ''timestamp'' @ '':'' @ Number_toString (timestamp d)
     @ '','' @ json_string ''readings'' @ '':'' @ json_readings (readings d) @ ''}''"

text \<open>
  \<^verbatim>\<open>createDataHash\<close>, the same text in \<^verbatim>\<open>merkleTree.ts\<close> and in the webhook route.  The
  JSON text starts with a brace, so the hash package reads it as UTF-8 text and not as a
  hex string.
\<close>

definition createDataHash :: "'a SensorFields_scheme \<Rightarrow> string" where
  "createDataHash d = ''0x'' @ Buffer_toString_hex (keccak256 (map of_char (dataString d)))"

section \<open>MerkleTreeBuilder\<close>

text \<open>A JavaScript \<^verbatim>\<open>Map\<close> keeps its keys in the order of their first insertion.\<close>

fun Map_set :: "('k \<times> 'v) list \<Rightarrow> 'k \<Rightarrow> 'v \<Rightarrow> ('k \<times> 'v) list" where
  "Map_set [] k v = [(k, v)]"
| "Map_set ((k', v') # m) k v = (if k' = k then (k, v) # m else (k', v') # Map_set m k v)"

definition Map_get :: "('k \<times> 'v) list \<Rightarrow> 'k \<Rightarrow> 'v option" where
  "Map_get m k = map_of m k"

record MerkleTreeResult =
  root :: string
  tree :: "Buffer list list"
  leaves :: "Buffer list"
  proofs :: "(string \<times> string list) list"

definition leaf_of :: "ProcessedSensorData \<Rightarrow> Buffer" where
  "leaf_of item =
     (let hashInput = (if dataHash item \<noteq> [] then dataHash item else createDataHash item)
      in Buffer_from_hex (replace_0x hashInput))"

definition proof_entry ::
  "Buffer list list \<Rightarrow> (string \<times> string list) list \<Rightarrow> ProcessedSensorData \<times> Buffer
     \<Rightarrow> (string \<times> string list) list" where
  "proof_entry layers m x =
     (case x of (item, leaf) \<Rightarrow>
        Map_set m
          (if dataHash item \<noteq> [] then dataHash item else ''0x'' @ Buffer_toString_hex leaf)
          (map (\<lambda>p. ''0x'' @ Buffer_toString_hex (node_data p)) (getProof layers leaf)))"

text \<open>
  \<^verbatim>\<open>buildTree\<close>: the tree is made with \<^verbatim>\<open>keccak256\<close>, \<^verbatim>\<open>sortPairs: true\<close> and
  \<^verbatim>\<open>hashLeaves: false\<close>.  No statement of it throws.
\<close>

definition buildTree :: "ProcessedSensorData list \<Rightarrow> MerkleTreeResult" where
  "buildTree dat =
     (let lvs = map leaf_of dat;
          layers = createHashes keccak256 lvs
      in \<lparr>root = ''0x'' @ Buffer_toString_hex (getRoot layers),
          tree = layers,
          leaves = lvs,
          proofs = foldl (proof_entry layers) [] (zip dat lvs)\<rparr>)"

text \<open>
  \<^verbatim>\<open>verifyProof\<close>: the proof strings are decoded and given alternating sides,
  \<^verbatim>\<open>right\<close> at the even indices; \<^verbatim>\<open>MerkleTree.verify\<close> is called with the hash
  function and no options, so \<^verbatim>\<open>sortPairs\<close> is off.
\<close>

definition proofObjects :: "Buffer list \<Rightarrow> ProofItem list" where
  "proofObjects proofBuffers =
     map (\<lambda>(d, i). \<lparr>position = (if i mod 2 = 0 then Right else Left), node_data = d\<rparr>)
       (zip proofBuffers [0..<length proofBuffers])"

definition verifyProof :: "string \<Rightarrow> string list \<Rightarrow> string \<Rightarrow> bool" where
  "verifyProof leaf prf rt =
     (let leafBuffer = Buffer_from_hex (replace_0x leaf);
          rootBuffer = Buffer_from_hex (replace_0x rt);
          proofBuffers = map (\<lambda>p. Buffer_from_hex (replace_0x p)) prf
      in MerkleTree_verify keccak256 False (proofObjects proofBuffers) leafBuffer rootBuffer)"

section \<open>TimeSeriesDB\<close>

record BatchRegistryEntry =
  entry_batchId :: string
  entry_merkleRoot :: string
  txHash :: string
  dataCount :: nat
  entry_createdAt :: int
  submittedAt :: int

record TimeSeriesDB =
  batches :: "(string \<times> BatchRegistryEntry) list"
  batchData :: "(string \<times> ProcessedSensorData list) list"
  stored_proofs :: "(string \<times> (string \<times> string list) list) list"
  totalDataPoints :: nat

definition empty_db :: TimeSeriesDB where
  "empty_db = \<lparr>batches = [], batchData = [], stored_proofs = [], totalDataPoints = 0\<rparr>"

definition saveBatch ::
  "TimeSeriesDB \<Rightarrow> BatchRegistryEntry \<Rightarrow> ProcessedSensorData list
     \<Rightarrow> (string \<times> string list) list option \<Rightarrow> TimeSeriesDB" where
  "saveBatch db entry dat merkleProofs =
     db\<lparr>batches := Map_set (batches db) (entry_batchId entry) entry,
        batchData := Map_set (batchData db) (entry_batchId entry) dat,
        stored_proofs :=
          (case merkleProofs of
             None \<Rightarrow> stored_proofs db
           | Some ps \<Rightarrow> Map_set (stored_proofs db) (entry_batchId entry) ps),
        totalDataPoints := totalDataPoints db + length dat\<rparr>"

text \<open>\<^verbatim>\<open>updateBatchTx\<close>; \<open>now\<close> is the value of \<^verbatim>\<open>Date.now()\<close>.\<close>

definition updateBatchTx :: "TimeSeriesDB \<Rightarrow> string \<Rightarrow> string \<Rightarrow> int \<Rightarrow> TimeSeriesDB" where
  "updateBatchTx db bid tx now =
     (case Map_get (batches db) bid of
        None \<Rightarrow> db
      | Some entry \<Rightarrow>
          db\<lparr>batches := Map_set (batches db) bid (entry\<lparr>txHash := tx, submittedAt := now\<rparr>)\<rparr>)"

definition getBatch :: "TimeSeriesDB \<Rightarrow> string \<Rightarrow> BatchRegistryEntry option" where
  "getBatch db bid = Map_get (batches db) bid"

definition getBatchData :: "TimeSeriesDB \<Rightarrow> string \<Rightarrow> ProcessedSensorData list option" where
  "getBatchData db bid = Map_get (batchData db) bid"

definition getProof_db :: "TimeSeriesDB \<Rightarrow> string \<Rightarrow> string \<Rightarrow> string list option" where
  "getProof_db db bid h =
     (case Map_get (stored_proofs db) bid of
        None \<Rightarrow> None
      | Some batchProofs \<Rightarrow> Map_get batchProofs h)"

definition getBatchCount :: "TimeSeriesDB \<Rightarrow> nat" where
  "getBatchCount db = length (batches db)"

definition getTotalDataPoints :: "TimeSeriesDB \<Rightarrow> nat" where
  "getTotalDataPoints db = totalDataPoints db"

definition getLatestBatch :: "TimeSeriesDB \<Rightarrow> BatchRegistryEntry option" where
  "getLatestBatch db =
     foldl (\<lambda>latest entry.
              case latest of
                None \<Rightarrow> Some entry
              | Some l \<Rightarrow> if entry_createdAt entry > entry_createdAt l then Some entry else latest)
       None (map snd (batches db))"

text \<open>
  \<^verbatim>\<open>arr.slice(start, end)\<close> with the clamping of negative and large indices.
\<close>

definition Array_slice :: "'a list \<Rightarrow> int \<Rightarrow> int \<Rightarrow> 'a list" where
  "Array_slice xs start fin =
     (let len = int (length xs);
          k = (if start < 0 then max (len + start) 0 else min start len);
          final = (if fin < 0 then max (len + fin) 0 else min fin len)
      in take (nat (final - k)) (drop (nat k) xs))"

text \<open>
  \<^verbatim>\<open>Array.prototype.sort\<close> is stable; with the comparator \<^verbatim>\<open>(a, b) => f(b) - f(a)\<close> it
  sorts by descending key, with \<^verbatim>\<open>(a, b) => f(a) - f(b)\<close> by ascending key.
\<close>

definition sort_descending :: "('a \<Rightarrow> int) \<Rightarrow> 'a list \<Rightarrow> 'a list" where
  "sort_descending f xs = sort_key (\<lambda>x. - f x) xs"

definition sort_ascending :: "('a \<Rightarrow> int) \<Rightarrow> 'a list \<Rightarrow> 'a list" where
  "sort_ascending f xs = sort_key f xs"

definition listBatches :: "TimeSeriesDB \<Rightarrow> int \<Rightarrow> int \<Rightarrow> BatchRegistryEntry list" where
  "listBatches db limit offset =
     Array_slice (sort_descending entry_createdAt (map snd (batches db))) offset (offset + limit)"

definition queryBySensor :: "TimeSeriesDB \<Rightarrow> string \<Rightarrow> ProcessedSensorData list" where
  "queryBySensor db sid =
     sort_descending timestamp
       (filter (\<lambda>item. sensorId item = sid) (concat (map snd (batchData db))))"

definition queryByTimeRange :: "TimeSeriesDB \<Rightarrow> int \<Rightarrow> int \<Rightarrow> ProcessedSensorData list" where
  "queryByTimeRange db startTime endTime =
     sort_ascending timestamp
       (filter (\<lambda>item. timestamp item \<ge> startTime \<and> timestamp item \<le> endTime)
          (concat (map snd (batchData db))))"

definition clear_db :: "TimeSeriesDB \<Rightarrow> TimeSeriesDB" where
  "clear_db db = empty_db"

text \<open>
  The two operations that write registry entries, the batch identifier each one writes,
  and a sequence of them applied in order.
\<close>

datatype DbOp =
    SaveBatch BatchRegistryEntry "ProcessedSensorData list" "(string \<times> string list) list option"
  | UpdateBatchTx string string int

fun op_target :: "DbOp \<Rightarrow> string" where
  "op_target (SaveBatch entry dat ps) = entry_batchId entry"
| "op_target (UpdateBatchTx bid tx now) = bid"

fun apply_op :: "TimeSeriesDB \<Rightarrow> DbOp \<Rightarrow> TimeSeriesDB" where
  "apply_op d (SaveBatch entry dat ps) = saveBatch d entry dat ps"
| "apply_op d (UpdateBatchTx bid tx now) = updateBatchTx d bid tx now"

section \<open>MemoryQueue\<close>

record QueueItem =
  item_id :: string
  item_data :: ProcessedSensorData
  addedAt :: int

record MemoryQueue =
  queue :: "QueueItem list"
  batchSize :: int
  flushIntervalMs :: int

text \<open>
  \<^verbatim>\<open>flush\<close> returns the new queue and the batch it emits as \<^verbatim>\<open>batch-ready\<close>, if any.
  \<^verbatim>\<open>splice(0, batchSize)\<close> removes no element when \<^verbatim>\<open>batchSize\<close> is not positive.
\<close>

definition flush :: "MemoryQueue \<Rightarrow> MemoryQueue \<times> ProcessedSensorData list option" where
  "flush q =
     (if length (queue q) = 0 then (q, None)
      else (q\<lparr>queue := drop (nat (batchSize q)) (queue q)\<rparr>,
            Some (map item_data (take (nat (batchSize q)) (queue q)))))"

definition enqueue ::
  "MemoryQueue \<Rightarrow> ProcessedSensorData \<Rightarrow> int
     \<Rightarrow> MemoryQueue \<times> ProcessedSensorData list option" where
  "enqueue q d now =
     (let q1 = q\<lparr>queue := queue q @ [\<lparr>item_id = id' d, item_data = d, addedAt = now\<rparr>]\<rparr>
      in if int (length (queue q1)) \<ge> batchSize q1 then flush q1 else (q1, None))"

text \<open>The timer callback: a flush when the queue is not empty.\<close>

definition timer_tick :: "MemoryQueue \<Rightarrow> MemoryQueue \<times> ProcessedSensorData list option" where
  "timer_tick q = (if length (queue q) > 0 then flush q else (q, None))"

text \<open>
  A run of \<^verbatim>\<open>enqueue\<close> calls, each with its clock value, and the batches emitted on the
  way, oldest first.
\<close>

fun enqueue_all ::
  "MemoryQueue \<Rightarrow> (ProcessedSensorData \<times> int) list
     \<Rightarrow> MemoryQueue \<times> ProcessedSensorData list list" where
  "enqueue_all q [] = (q, [])"
| "enqueue_all q ((d, now) # rest) =
     (case enqueue q d now of
        (q1, out) \<Rightarrow>
          (case enqueue_all q1 rest of
             (q2, outs) \<Rightarrow> (q2, (case out of None \<Rightarrow> outs | Some b \<Rightarrow> b # outs))))"

section \<open>RollupEngine\<close>

record DataBatch =
  batchId :: string
  data :: "ProcessedSensorData list"
  createdAt :: int
  merkleRoot :: "string option"
  merkleProofs :: "(string \<times> string list) list option"

text \<open>
  The relayer's \<^verbatim>\<open>submitMerkleRoot\<close> either resolves with a transaction hash or
  rejects.  A submission is awaited by \<^verbatim>\<open>processRollup\<close>, which records the hash, or
  was started by the \<^verbatim>\<open>setTimeout\<close> callback of the \<^verbatim>\<open>finally\<close> block, which drops
  the promise.
\<close>

datatype Outcome = Confirmed string | Rejected

datatype Caller = FromProcessRollup | FromTimer

text \<open>
  The state of the engine and of what it shares: its two fields, the \<^verbatim>\<open>timeseriesDB\<close>
  singleton, the relayer call that has not settled yet with its caller, and the
  \<^verbatim>\<open>setTimeout\<close> callbacks that have not run yet, oldest first.  The code between two
  suspension points (the relayer call, a timer) runs without interruption.
\<close>

record RollupState =
  pendingBatches :: "DataBatch list"
  isSubmitting :: bool
  db :: TimeSeriesDB
  inFlight :: "(DataBatch \<times> Caller) option"
  timers :: "DataBatch list"

definition initial_state :: RollupState where
  "initial_state =
     \<lparr>pendingBatches = [], isSubmitting = False, db = empty_db, inFlight = None, timers = []\<rparr>"

text \<open>The registry entry \<^verbatim>\<open>storeBatch\<close> makes of a batch, and the store.\<close>

definition new_entry :: "DataBatch \<Rightarrow> BatchRegistryEntry" where
  "new_entry batch =
     \<lparr>entry_batchId = batchId batch,
      entry_merkleRoot = (case merkleRoot batch of None \<Rightarrow> [] | Some r \<Rightarrow> r),
      txHash = [],
      dataCount = length (data batch),
      entry_createdAt = createdAt batch,
      submittedAt = 0\<rparr>"

definition storeBatch :: "TimeSeriesDB \<Rightarrow> DataBatch \<Rightarrow> TimeSeriesDB" where
  "storeBatch d batch = saveBatch d (new_entry batch) (data batch) (merkleProofs batch)"

text \<open>The \<^verbatim>\<open>finally\<close> block of \<^verbatim>\<open>submitToBlockchain\<close>.\<close>

definition submit_finally :: "RollupState \<Rightarrow> RollupState" where
  "submit_finally st =
     (let st1 = st\<lparr>isSubmitting := False\<rparr>
      in (case pendingBatches st1 of
            [] \<Rightarrow> st1
          | nextBatch # rest \<Rightarrow> st1\<lparr>pendingBatches := rest, timers := timers st1 @ [nextBatch]\<rparr>))"

text \<open>
  \<^verbatim>\<open>submitToBlockchain\<close> up to the relayer call: the batch is queued when a submission
  is in flight; a batch without a root throws inside \<^verbatim>\<open>try\<close>, which \<^verbatim>\<open>catch\<close> turns
  into \<^verbatim>\<open>null\<close>; otherwise the relayer is called and the function waits.
\<close>

definition submit_call :: "RollupState \<Rightarrow> DataBatch \<Rightarrow> Caller \<Rightarrow> RollupState" where
  "submit_call st batch caller =
     (if isSubmitting st then st\<lparr>pendingBatches := pendingBatches st @ [batch]\<rparr>
      else if merkleRoot batch = None \<or> merkleRoot batch = Some []
        then submit_finally (st\<lparr>isSubmitting := True\<rparr>)
      else st\<lparr>isSubmitting := True, inFlight := Some (batch, caller)\<rparr>)"

text \<open>
  The relayer call settles: \<^verbatim>\<open>submitToBlockchain\<close> returns the hash or, from
  \<^verbatim>\<open>catch\<close>, \<^verbatim>\<open>null\<close>; \<^verbatim>\<open>finally\<close> runs; \<^verbatim>\<open>processRollup\<close>, when it is the caller
  and the result is a hash, updates the registry.
\<close>

definition relayer_settles :: "RollupState \<Rightarrow> Outcome \<Rightarrow> int \<Rightarrow> RollupState" where
  "relayer_settles st outcome now =
     (case inFlight st of
        None \<Rightarrow> st
      | Some (batch, caller) \<Rightarrow>
          (let st1 = submit_finally (st\<lparr>inFlight := None\<rparr>)
           in (case outcome of
                 Rejected \<Rightarrow> st1
               | Confirmed tx \<Rightarrow>
                   (case caller of
                      FromTimer \<Rightarrow> st1
                    | FromProcessRollup \<Rightarrow>
                        st1\<lparr>db := updateBatchTx (db st1) (batchId batch) tx now\<rparr>))))"

text \<open>
  \<^verbatim>\<open>processRollup\<close> up to the relayer call.  Neither \<^verbatim>\<open>buildTree\<close> nor the store
  throws, so the \<^verbatim>\<open>catch\<close> block of \<^verbatim>\<open>processRollup\<close> is not reached.
\<close>

definition attach_tree :: "DataBatch \<Rightarrow> DataBatch" where
  "attach_tree batch =
     (let r = buildTree (data batch)
      in batch\<lparr>merkleRoot := Some (root r), merkleProofs := Some (proofs r)\<rparr>)"

definition processRollup_call :: "RollupState \<Rightarrow> DataBatch \<Rightarrow> RollupState" where
  "processRollup_call st batch =
     (let b = attach_tree batch
      in submit_call (st\<lparr>db := storeBatch (db st) b\<rparr>) b FromProcessRollup)"

text \<open>The oldest \<^verbatim>\<open>setTimeout\<close> callback runs: \<^verbatim>\<open>submitToBlockchain(nextBatch)\<close>.\<close>

definition timer_fires :: "RollupState \<Rightarrow> RollupState" where
  "timer_fires st =
     (case timers st of
        [] \<Rightarrow> st
      | b # rest \<Rightarrow> submit_call (st\<lparr>timers := rest\<rparr>) b FromTimer)"

datatype Event = ProcessRollup DataBatch | RelayerSettles Outcome int | TimerFires

fun step :: "RollupState \<Rightarrow> Event \<Rightarrow> RollupState" where
  "step st (ProcessRollup batch) = processRollup_call st batch"
| "step st (RelayerSettles outcome now) = relayer_settles st outcome now"
| "step st TimerFires = timer_fires st"

definition run :: "RollupState \<Rightarrow> Event list \<Rightarrow> RollupState" where
  "run st evs = foldl step st evs"

text \<open>
  \<^verbatim>\<open>processRollup\<close> from call to return when nothing else happens before the relayer
  settles.
\<close>

definition processRollup :: "RollupState \<Rightarrow> DataBatch \<Rightarrow> Outcome \<Rightarrow> int \<Rightarrow> RollupState" where
  "processRollup st batch outcome now =
     (if isSubmitting st then processRollup_call st batch
      else relayer_settles (processRollup_call st batch) outcome now)"

section \<open>Example inputs\<close>

text \<open>
  Two payloads with the same serial number, sensor, timestamp and measurements; the
  device inserted the measurement keys in a different order.
\<close>

definition payload_1 :: SensorDataPayload where
  "payload_1 =
     \<lparr>serialNumber = ''SN001'', sensorId = ''SENSOR001'', timestamp = 1706489614,
      readings = [(''temperature'', 25), (''humidity'', 60)],
      deviceSignature = ''sig123456''\<rparr>"

definition payload_2 :: SensorDataPayload where
  "payload_2 =
     \<lparr>serialNumber = ''SN001'', sensorId = ''SENSOR001'', timestamp = 1706489614,
      readings = [(''humidity'', 60), (''temperature'', 25)],
      deviceSignature = ''sig123456''\<rparr>"

text \<open>
  The readings the webhook route makes of them; \<^verbatim>\<open>dataHash\<close> is the fingerprint the
  route computes.
\<close>

definition reading_a :: ProcessedSensorData where
  "reading_a =
     \<lparr>serialNumber = ''SN001'', sensorId = ''SENSOR001'', timestamp = 1706489614,
      readings = [(''temperature'', 25), (''humidity'', 60)],
      id' = ''reading-a'', receivedAt = 1706489615000,
      dataHash = ''0xc67bc0bc7511679da937802a91c9670516654812804c4b6cf7098d3f61456634''\<rparr>"

definition reading_b :: ProcessedSensorData where
  "reading_b =
     \<lparr>serialNumber = ''SN001'', sensorId = ''SENSOR001'', timestamp = 1706489614,
      readings = [(''humidity'', 60), (''temperature'', 25)],
      id' = ''reading-b'', receivedAt = 1706489616000,
      dataHash = ''0xca5a63c1202f71209981898b77edd85e7f0f697465b5d2aa3f35f2dfebe61c91''\<rparr>"

definition batch_A :: DataBatch where
  "batch_A =
     \<lparr>batchId = ''batch-A'', data = [reading_a], createdAt = 1706489620000,
      merkleRoot = None, merkleProofs = None\<rparr>"

definition batch_B :: DataBatch where
  "batch_B =
     \<lparr>batchId = ''batch-B'', data = [reading_b], createdAt = 1706489680000,
      merkleRoot = None, merkleProofs = None\<rparr>"

text \<open>A registry in which the first batch is stored and confirmed.\<close>

definition registered_A :: TimeSeriesDB where
  "registered_A =
     updateBatchTx (storeBatch empty_db (attach_tree batch_A)) ''batch-A'' ''0xaa'' 1706489621000"

definition queue_of_two :: MemoryQueue where
  "queue_of_two = \<lparr>queue = [], batchSize = 2, flushIntervalMs = 60000\<rparr>"

section \<open>Properties\<close>

lemma Buffer_compare_eq_0: "Buffer_compare a b = 0 \<longleftrightarrow> a = b"
  by (induction a b rule: Buffer_compare.induct) auto

text \<open>
  Claim C10.  With an empty proof list, \<open>verifyProof leaf [] root\<close> is true exactly when
  the leaf string and the root string decode to the same bytes.
\<close>

theorem verifyProof_empty_proof:
  "verifyProof leaf [] rt
     = (Buffer_from_hex (replace_0x leaf) = Buffer_from_hex (replace_0x rt))"
  by (simp add: verifyProof_def proofObjects_def MerkleTree_verify_def Buffer_compare_eq_0)

theorem verifyProof_empty_proof_witness:
  "verifyProof (root (buildTree [reading_a, reading_b])) []
     (root (buildTree [reading_a, reading_b]))"
  using verifyProof_empty_proof
    [of "root (buildTree [reading_a, reading_b])" "root (buildTree [reading_a, reading_b])"]
  by simp

subsection \<open>The queue\<close>

lemma enqueue_all_fill:
  "ds \<noteq> [] \<Longrightarrow> int (length (queue q) + length ds) = batchSize q \<Longrightarrow>
   enqueue_all q ds = (q\<lparr>queue := []\<rparr>, [map item_data (queue q) @ map fst ds])"
proof (induction ds arbitrary: q)
  case Nil
  then show ?case by simp
next
  case (Cons x rest)
  obtain d now where x: "x = (d, now)"
    by (cases x)
  define q1 where
    "q1 = q\<lparr>queue := queue q @ [\<lparr>item_id = id' d, item_data = d, addedAt = now\<rparr>]\<rparr>"
  show ?case
  proof (cases "rest = []")
    case True
    with Cons.prems have n: "batchSize q = int (length (queue q)) + 1"
      by simp
    have "enqueue q d now = (q\<lparr>queue := []\<rparr>, Some (map item_data (queue q) @ [d]))"
      by (simp add: enqueue_def flush_def Let_def n nat_add_distrib)
    with True x show ?thesis
      by simp
  next
    case False
    with Cons.prems have n: "int (length (queue q)) + 1 < batchSize q"
      by (cases rest) auto
    have e: "enqueue q d now = (q1, None)"
      using n by (simp add: enqueue_def Let_def q1_def)
    have "int (length (queue q1) + length rest) = batchSize q1"
      using Cons.prems by (simp add: q1_def)
    from Cons.IH[OF False this] e x show ?thesis
      by (simp add: q1_def)
  qed
qed

text \<open>
  Claim C9.  When \<open>N\<close> readings are enqueued into an empty queue of capacity \<open>N\<close> (and no
  timer fires), exactly one batch is released, it holds the \<open>N\<close> readings in the order
  they were enqueued, and the queue is empty afterwards.
\<close>

theorem enqueue_capacity_releases_batch:
  assumes "queue q = []" and "ds \<noteq> []" and "batchSize q = int (length ds)"
  shows "enqueue_all q ds = (q\<lparr>queue := []\<rparr>, [map fst ds])"
  using enqueue_all_fill[of ds q] assms by simp

theorem enqueue_capacity_releases_batch_witness:
  "queue queue_of_two = []
   \<and> [(reading_a, 1706489615000), (reading_b, 1706489616000)] \<noteq> []
   \<and> batchSize queue_of_two
       = int (length [(reading_a, 1706489615000 :: int), (reading_b, 1706489616000)])
   \<and> enqueue_all queue_of_two [(reading_a, 1706489615000), (reading_b, 1706489616000)]
       = (queue_of_two, [[reading_a, reading_b]])"
  using enqueue_capacity_releases_batch
    [of queue_of_two "[(reading_a, 1706489615000), (reading_b, 1706489616000)]"]
  by (simp add: queue_of_two_def)

subsection \<open>The registry queries\<close>

lemma sorted_wrt_take_drop:
  "sorted_wrt P xs \<Longrightarrow> sorted_wrt P (take n (drop k xs))"
  by (metis append_take_drop_id sorted_wrt_append)

lemma sorted_wrt_Array_slice:
  "sorted_wrt P xs \<Longrightarrow> sorted_wrt P (Array_slice xs start fin)"
  by (simp add: Array_slice_def Let_def sorted_wrt_take_drop)

lemma set_Array_slice: "set (Array_slice xs start fin) \<subseteq> set xs"
proof -
  have "set (take n (drop k xs)) \<subseteq> set xs" for n k
    by (meson set_take_subset set_drop_subset subset_trans)
  then show ?thesis
    by (simp add: Array_slice_def Let_def)
qed

lemma sort_descending_sorted:
  "sorted_wrt (\<lambda>a b. f a \<ge> f b) (sort_descending f xs)"
proof -
  have "sorted (map (\<lambda>x. - f x) (sort_key (\<lambda>x. - f x) xs))"
    by (rule sorted_sort_key)
  then show ?thesis
    by (simp add: sort_descending_def sorted_map)
qed

lemma sort_ascending_sorted:
  "sorted_wrt (\<lambda>a b. f a \<le> f b) (sort_ascending f xs)"
proof -
  have "sorted (map f (sort_key f xs))"
    by (rule sorted_sort_key)
  then show ?thesis
    by (simp add: sort_ascending_def sorted_map)
qed

text \<open>
  Claim C8.  In every state of the registry, \<open>listBatches\<close> returns entries of the
  registry newest first by creation time, \<open>queryBySensor\<close> returns the readings of the
  sensor by descending timestamp, and \<open>queryByTimeRange\<close> returns the readings of the
  range by ascending timestamp.
\<close>

theorem query_orders:
  "sorted_wrt (\<lambda>a b. entry_createdAt a \<ge> entry_createdAt b) (listBatches tdb limit offset)
   \<and> set (listBatches tdb limit offset) \<subseteq> set (map snd (batches tdb))
   \<and> sorted_wrt (\<lambda>a b. timestamp a \<ge> timestamp b) (queryBySensor tdb sid)
   \<and> set (queryBySensor tdb sid)
       = {item \<in> set (concat (map snd (batchData tdb))). sensorId item = sid}
   \<and> sorted_wrt (\<lambda>a b. timestamp a \<le> timestamp b) (queryByTimeRange tdb startTime endTime)
   \<and> set (queryByTimeRange tdb startTime endTime)
       = {item \<in> set (concat (map snd (batchData tdb))).
            startTime \<le> timestamp item \<and> timestamp item \<le> endTime}"
proof (intro conjI)
  show "sorted_wrt (\<lambda>a b. entry_createdAt a \<ge> entry_createdAt b)
          (listBatches tdb limit offset)"
    unfolding listBatches_def by (rule sorted_wrt_Array_slice) (rule sort_descending_sorted)
  have "set (listBatches tdb limit offset)
          \<subseteq> set (sort_descending entry_createdAt (map snd (batches tdb)))"
    unfolding listBatches_def by (rule set_Array_slice)
  then show "set (listBatches tdb limit offset) \<subseteq> set (map snd (batches tdb))"
    by (simp add: sort_descending_def)
  show "sorted_wrt (\<lambda>a b. timestamp a \<ge> timestamp b) (queryBySensor tdb sid)"
    unfolding queryBySensor_def by (rule sort_descending_sorted)
  show "sorted_wrt (\<lambda>a b. timestamp a \<le> timestamp b)
          (queryByTimeRange tdb startTime endTime)"
    unfolding queryByTimeRange_def by (rule sort_ascending_sorted)
  show "set (queryBySensor tdb sid)
          = {item \<in> set (concat (map snd (batchData tdb))). sensorId item = sid}"
    by (simp add: queryBySensor_def sort_descending_def)
  show "set (queryByTimeRange tdb startTime endTime)
          = {item \<in> set (concat (map snd (batchData tdb))).
               startTime \<le> timestamp item \<and> timestamp item \<le> endTime}"
    by (simp add: queryByTimeRange_def sort_ascending_def)
qed

theorem query_orders_witness:
  "sorted_wrt (\<lambda>a b. entry_createdAt a \<ge> entry_createdAt b)
     (listBatches (storeBatch (storeBatch empty_db batch_A) batch_B) 10 0)
   \<and> map entry_batchId (listBatches (storeBatch (storeBatch empty_db batch_A) batch_B) 10 0)
       = [''batch-B'', ''batch-A'']"
  using query_orders[of "storeBatch (storeBatch empty_db batch_A) batch_B" 10 0]
  by (simp add: listBatches_def storeBatch_def new_entry_def saveBatch_def empty_db_def
      batch_A_def batch_B_def sort_descending_def Array_slice_def)

subsection \<open>The registry\<close>

lemma Map_get_Map_set: "Map_get (Map_set m k v) k' = (if k' = k then Some v else Map_get m k')"
  by (induction m) (auto simp: Map_get_def)

lemma getBatch_saveBatch:
  "getBatch (saveBatch d e dat ps) b = (if b = entry_batchId e then Some e else getBatch d b)"
  by (simp add: getBatch_def saveBatch_def Map_get_Map_set)

lemma getBatchData_saveBatch:
  "getBatchData (saveBatch d e dat ps) b
     = (if b = entry_batchId e then Some dat else getBatchData d b)"
  by (simp add: getBatchData_def saveBatch_def Map_get_Map_set)

lemma stored_proofs_saveBatch:
  "Map_get (stored_proofs (saveBatch d e dat (Some ps))) b
     = (if b = entry_batchId e then Some ps else Map_get (stored_proofs d) b)"
  by (simp add: saveBatch_def Map_get_Map_set)

lemma getBatch_updateBatchTx:
  "getBatch (updateBatchTx d b tx now) b'
     = (if b' = b then map_option (\<lambda>e. e\<lparr>txHash := tx, submittedAt := now\<rparr>) (getBatch d b)
        else getBatch d b')"
  by (simp add: getBatch_def updateBatchTx_def Map_get_Map_set split: option.splits)

lemma getBatch_apply_op_other:
  "op_target x \<noteq> b \<Longrightarrow> getBatch (apply_op d x) b = getBatch d b"
  by (cases x) (simp_all add: getBatch_saveBatch getBatch_updateBatchTx)

lemma getBatch_apply_ops_other:
  "\<forall>x \<in> set ops. op_target x \<noteq> b \<Longrightarrow> getBatch (foldl apply_op d ops) b = getBatch d b"
  by (induction ops arbitrary: d) (simp_all add: getBatch_apply_op_other)

lemma root_not_empty: "root (buildTree dat) \<noteq> []"
  by (simp add: buildTree_def Let_def)

lemma attach_tree_simps:
  "batchId (attach_tree b) = batchId b"
  "data (attach_tree b) = data b"
  "createdAt (attach_tree b) = createdAt b"
  "merkleRoot (attach_tree b) = Some (root (buildTree (data b)))"
  "merkleProofs (attach_tree b) = Some (proofs (buildTree (data b)))"
  by (simp_all add: attach_tree_def Let_def)

lemma entry_batchId_new_entry: "entry_batchId (new_entry b) = batchId b"
  by (simp add: new_entry_def)

lemma txHash_new_entry: "txHash (new_entry b) = []"
  by (simp add: new_entry_def)

lemma getBatch_storeBatch:
  "getBatch (storeBatch d b) x = (if x = batchId b then Some (new_entry b) else getBatch d x)"
  by (simp add: storeBatch_def getBatch_saveBatch entry_batchId_new_entry)

lemma stored_batch:
  "getBatch (storeBatch d b) (batchId b) = Some (new_entry b)"
  "getBatchData (storeBatch d b) (batchId b) = Some (data b)"
  "Map_get (stored_proofs (storeBatch d (attach_tree b))) (batchId b)
     = Some (proofs (buildTree (data b)))"
  by (simp_all add: storeBatch_def getBatch_saveBatch getBatchData_saveBatch
      stored_proofs_saveBatch entry_batchId_new_entry attach_tree_simps)

text \<open>
  Claim C7 says that a transaction reference, once set to a non-empty value, is never
  overwritten with a different value.  \<open>updateBatchTx\<close> has no such guard: a second call
  for the same batch replaces the reference.
\<close>

theorem updateBatchTx_overwrites_counterexample:
  "map_option txHash (getBatch registered_A ''batch-A'') = Some ''0xaa''
   \<and> map_option txHash
        (getBatch (updateBatchTx registered_A ''batch-A'' ''0xbb'' 1706489622000) ''batch-A'')
       = Some ''0xbb''"
  by (simp add: registered_A_def getBatch_updateBatchTx getBatch_storeBatch
      attach_tree_simps batch_A_def txHash_new_entry)

text \<open>
  Claim C7, amended.  The writes of the registry that name other batches leave the entry
  of a batch, and so its transaction reference, as it is; \<open>updateBatchTx\<close> for the batch
  itself sets the reference and the submission time to the values it is given, whatever
  they were.
\<close>

theorem tx_reference_changes_only_by_own_batch:
  assumes "\<forall>x \<in> set ops. op_target x \<noteq> b"
  shows "getBatch (foldl apply_op d ops) b = getBatch d b
         \<and> getBatch (updateBatchTx (foldl apply_op d ops) b tx now) b
             = map_option (\<lambda>e. e\<lparr>txHash := tx, submittedAt := now\<rparr>) (getBatch d b)"
  using assms by (simp add: getBatch_apply_ops_other getBatch_updateBatchTx)

theorem tx_reference_changes_only_by_own_batch_witness:
  "map op_target [UpdateBatchTx ''batch-B'' ''0xbb'' 1706489623000,
                   SaveBatch (new_entry batch_B) [reading_b] None] = [''batch-B'', ''batch-B'']
   \<and> map_option txHash
        (getBatch (foldl apply_op registered_A
           [UpdateBatchTx ''batch-B'' ''0xbb'' 1706489623000,
            SaveBatch (new_entry batch_B) [reading_b] None]) ''batch-A'')
       = Some ''0xaa''"
  using tx_reference_changes_only_by_own_batch
    [of "[UpdateBatchTx ''batch-B'' ''0xbb'' 1706489623000,
          SaveBatch (new_entry batch_B) [reading_b] None]" "''batch-A''" registered_A]
  by (simp add: entry_batchId_new_entry batch_B_def registered_A_def getBatch_updateBatchTx
      getBatch_storeBatch attach_tree_simps batch_A_def txHash_new_entry)

subsection \<open>The tree of an empty batch\<close>

text \<open>
  Claim C4 says that \<open>buildTree\<close> rejects an empty sequence.  It returns the root
  \<^verbatim>\<open>0x\<close>, the encoding of no bytes.
\<close>

theorem buildTree_empty_counterexample: "root (buildTree []) = ''0x''"
  by (simp add: buildTree_def createHashes.simps getRoot_def Buffer_toString_hex_def)

text \<open>
  Claim C4, amended.  \<open>buildTree\<close> applied to an empty sequence of readings does not
  fail: it returns the root \<^verbatim>\<open>0x\<close>, the single empty layer, no leaves and no proofs.
\<close>

theorem buildTree_empty:
  "buildTree [] = \<lparr>root = ''0x'', tree = [[]], leaves = [], proofs = []\<rparr>"
  by (simp add: buildTree_def createHashes.simps getRoot_def Buffer_toString_hex_def)

subsection \<open>The rollup\<close>

lemma db_submit_finally: "db (submit_finally st) = db st"
  by (simp add: submit_finally_def Let_def split: list.splits)

lemma db_submit_call: "db (submit_call st b c) = db st"
  by (simp add: submit_call_def db_submit_finally)

lemma db_processRollup_call:
  "db (processRollup_call st batch) = storeBatch (db st) (attach_tree batch)"
  by (simp add: processRollup_call_def Let_def db_submit_call)

lemma db_relayer_settles_Rejected: "db (relayer_settles st Rejected now) = db st"
  by (simp add: relayer_settles_def Let_def db_submit_finally split: option.splits prod.splits)

lemma db_processRollup_Rejected:
  "db (processRollup st batch Rejected now) = storeBatch (db st) (attach_tree batch)"
  by (simp add: processRollup_def db_relayer_settles_Rejected db_processRollup_call)

lemma inFlight_processRollup_call:
  "inFlight (processRollup_call st batch)
     = (if isSubmitting st then inFlight st else Some (attach_tree batch, FromProcessRollup))"
  by (simp add: processRollup_call_def Let_def submit_call_def attach_tree_simps root_not_empty)

lemmas engine_defs = processRollup_call_def submit_call_def relayer_settles_def
  submit_finally_def timer_fires_def run_def initial_state_def

text \<open>
  Claim C5.  When \<open>processRollup\<close> reaches the relayer call the batch is in the registry:
  its entry with the root and an empty transaction reference, its readings and its
  proofs;  the relayer call is then in flight (or, when another submission is, the batch
  is queued);  and a rejected submission leaves the registry as it was at the call, so
  the batch is found by its identifier after \<open>processRollup\<close> has returned.
\<close>

theorem processRollup_persists_before_submission:
  "getBatch (db (processRollup_call st batch)) (batchId batch)
     = Some \<lparr>entry_batchId = batchId batch,
             entry_merkleRoot = root (buildTree (data batch)),
             txHash = [], dataCount = length (data batch),
             entry_createdAt = createdAt batch, submittedAt = 0\<rparr>
   \<and> getBatchData (db (processRollup_call st batch)) (batchId batch) = Some (data batch)
   \<and> getProof_db (db (processRollup_call st batch)) (batchId batch) h
       = Map_get (proofs (buildTree (data batch))) h
   \<and> inFlight (processRollup_call st batch)
       = (if isSubmitting st then inFlight st else Some (attach_tree batch, FromProcessRollup))
   \<and> db (processRollup st batch Rejected now) = db (processRollup_call st batch)"
  using stored_batch(1)[of "db st" "attach_tree batch"]
    stored_batch(2)[of "db st" "attach_tree batch"]
  by (simp add: db_processRollup_call db_processRollup_Rejected inFlight_processRollup_call
      attach_tree_simps new_entry_def getProof_db_def stored_batch(3))

theorem processRollup_persists_before_submission_witness:
  "map_option txHash
     (getBatch (db (processRollup initial_state batch_A Rejected 1706489621000)) ''batch-A'')
     = Some []
   \<and> getBatchData (db (processRollup initial_state batch_A Rejected 1706489621000)) ''batch-A''
     = Some [reading_a]"
  using processRollup_persists_before_submission[of initial_state batch_A _ 1706489621000]
  by (simp add: batch_A_def)

text \<open>
  Claim C3 says that a batch whose submission the relayer rejects is appended to the
  backlog.  In the code \<open>submitToBlockchain\<close> catches the rejection and returns
  \<^verbatim>\<open>null\<close>: the registry entry keeps its empty transaction reference, and the batch is
  neither in the backlog nor scheduled, so nothing retries it.
\<close>

theorem failed_submission_is_not_queued:
  assumes "\<not> isSubmitting st" and "pendingBatches st = []"
  shows "pendingBatches (processRollup st batch Rejected now) = []
         \<and> timers (processRollup st batch Rejected now) = timers st
         \<and> inFlight (processRollup st batch Rejected now) = None
         \<and> \<not> isSubmitting (processRollup st batch Rejected now)
         \<and> map_option txHash
              (getBatch (db (processRollup st batch Rejected now)) (batchId batch))
             = Some []"
  using assms stored_batch(1)[of "db st" "attach_tree batch"]
  by (simp add: processRollup_def processRollup_call_def Let_def submit_call_def
      relayer_settles_def submit_finally_def attach_tree_simps root_not_empty new_entry_def)

theorem failed_submission_is_not_queued_witness:
  "\<not> isSubmitting initial_state \<and> pendingBatches initial_state = []
   \<and> pendingBatches (processRollup initial_state batch_A Rejected 1706489621000) = []
   \<and> timers (processRollup initial_state batch_A Rejected 1706489621000) = []
   \<and> map_option txHash
        (getBatch (db (processRollup initial_state batch_A Rejected 1706489621000)) ''batch-A'')
       = Some []"
  using failed_submission_is_not_queued[of initial_state batch_A 1706489621000]
  by (simp add: initial_state_def batch_A_def)

text \<open>
  Claim C6 says that a batch \<open>b\<close> submitted while the submission of \<open>a\<close> is in flight is
  put in the backlog with an empty transaction reference, and that the reference is set
  once \<open>a\<close> has completed and \<open>b\<close> has been drained and submitted with success.  The first
  part holds.  The drained submission is started by a timer callback that drops the
  result, so the reference of \<open>b\<close> stays empty after the relayer has confirmed it, and
  nothing is left that would set it.
\<close>

theorem queued_batch_is_never_confirmed:
  assumes "batchId a \<noteq> batchId b"
  shows "pendingBatches (run initial_state [ProcessRollup a, ProcessRollup b]) = [attach_tree b]
    \<and> map_option txHash
         (getBatch (db (run initial_state [ProcessRollup a, ProcessRollup b])) (batchId b))
        = Some []
    \<and> inFlight (run initial_state
          [ProcessRollup a, ProcessRollup b, RelayerSettles (Confirmed txa) t1, TimerFires])
        = Some (attach_tree b, FromTimer)
    \<and> map_option txHash
         (getBatch (db (run initial_state
            [ProcessRollup a, ProcessRollup b, RelayerSettles (Confirmed txa) t1, TimerFires,
             RelayerSettles (Confirmed txb) t2])) (batchId a))
        = Some txa
    \<and> map_option txHash
         (getBatch (db (run initial_state
            [ProcessRollup a, ProcessRollup b, RelayerSettles (Confirmed txa) t1, TimerFires,
             RelayerSettles (Confirmed txb) t2])) (batchId b))
        = Some []
    \<and> pendingBatches (run initial_state
          [ProcessRollup a, ProcessRollup b, RelayerSettles (Confirmed txa) t1, TimerFires,
           RelayerSettles (Confirmed txb) t2]) = []
    \<and> timers (run initial_state
          [ProcessRollup a, ProcessRollup b, RelayerSettles (Confirmed txa) t1, TimerFires,
           RelayerSettles (Confirmed txb) t2]) = []
    \<and> inFlight (run initial_state
          [ProcessRollup a, ProcessRollup b, RelayerSettles (Confirmed txa) t1, TimerFires,
           RelayerSettles (Confirmed txb) t2]) = None"
  using assms
  by (simp add: engine_defs Let_def attach_tree_simps root_not_empty getBatch_storeBatch
      getBatch_updateBatchTx txHash_new_entry)

theorem queued_batch_is_never_confirmed_witness:
  "batchId batch_A \<noteq> batchId batch_B
   \<and> map_option txHash
         (getBatch (db (run initial_state
            [ProcessRollup batch_A, ProcessRollup batch_B,
             RelayerSettles (Confirmed ''0xaa'') 1706489621000, TimerFires,
             RelayerSettles (Confirmed ''0xbb'') 1706489623000])) ''batch-B'')
        = Some []"
  using queued_batch_is_never_confirmed
    [of batch_A batch_B "''0xaa''" 1706489621000 "''0xbb''" 1706489623000]
  by (simp add: batch_A_def batch_B_def)

subsection \<open>Evaluating Keccak-256\<close>

text \<open>
  The steps of a round on a state written out as a list of 25 lanes, and the sponge on a
  message of less than one block.  With these the simplifier computes the hash of a
  given message.
\<close>


lemma upt5: "[0..<5] = [0,1,2,3,4]"
  by (simp add: upt_rec)

lemma upt25:
  "[0..<25] = [0,1,2,3,4,5,6,7,8,9,10,11,12,13,14,15,16,17,18,19,20,21,22,23,24]"
  by (simp add: upt_rec)

lemma theta_c_eval: "theta_c [a0, a1, a2, a3, a4, a5, a6, a7, a8, a9, a10, a11, a12, a13, a14, a15, a16, a17, a18, a19, a20, a21, a22, a23, a24] =
    [a0 XOR a5 XOR a10 XOR a15 XOR a20,
     a1 XOR a6 XOR a11 XOR a16 XOR a21,
     a2 XOR a7 XOR a12 XOR a17 XOR a22,
     a3 XOR a8 XOR a13 XOR a18 XOR a23,
     a4 XOR a9 XOR a14 XOR a19 XOR a24]"
  by (simp add: theta_c_def upt5)

lemma theta_d_eval: "theta_d [c0, c1, c2, c3, c4] =
    [c4 XOR rotl64 c1 1,
     c0 XOR rotl64 c2 1,
     c1 XOR rotl64 c3 1,
     c2 XOR rotl64 c4 1,
     c3 XOR rotl64 c0 1]"
  by (simp add: theta_d_def upt5)

lemma theta_apply_eval: "theta_apply [a0, a1, a2, a3, a4, a5, a6, a7, a8, a9, a10, a11, a12, a13, a14, a15, a16, a17, a18, a19, a20, a21, a22, a23, a24] [d0, d1, d2, d3, d4] =
    [a0 XOR d0,
     a1 XOR d1,
     a2 XOR d2,
     a3 XOR d3,
     a4 XOR d4,
     a5 XOR d0,
     a6 XOR d1,
     a7 XOR d2,
     a8 XOR d3,
     a9 XOR d4,
     a10 XOR d0,
     a11 XOR d1,
     a12 XOR d2,
     a13 XOR d3,
     a14 XOR d4,
     a15 XOR d0,
     a16 XOR d1,
     a17 XOR d2,
     a18 XOR d3,
     a19 XOR d4,
     a20 XOR d0,
     a21 XOR d1,
     a22 XOR d2,
     a23 XOR d3,
     a24 XOR d4]"
  by (simp add: theta_apply_def upt25)

lemma rho_pi_eval: "rho_pi [a0, a1, a2, a3, a4, a5, a6, a7, a8, a9, a10, a11, a12, a13, a14, a15, a16, a17, a18, a19, a20, a21, a22, a23, a24] =
    [rotl64 a0 0,
     rotl64 a6 44,
     rotl64 a12 43,
     rotl64 a18 21,
     rotl64 a24 14,
     rotl64 a3 28,
     rotl64 a9 20,
     rotl64 a10 3,
     rotl64 a16 45,
     rotl64 a22 61,
     rotl64 a1 1,
     rotl64 a7 6,
     rotl64 a13 25,
     rotl64 a19 8,
     rotl64 a20 18,
     rotl64 a4 27,
     rotl64 a5 36,
     rotl64 a11 10,
     rotl64 a17 15,
     rotl64 a23 56,
     rotl64 a2 62,
     rotl64 a8 55,
     rotl64 a14 39,
     rotl64 a15 41,
     rotl64 a21 2]"
  by (simp add: rho_pi_def upt25 pi_source_def rho_offsets_def)

lemma chi_eval: "chi [a0, a1, a2, a3, a4, a5, a6, a7, a8, a9, a10, a11, a12, a13, a14, a15, a16, a17, a18, a19, a20, a21, a22, a23, a24] =
    [a0 XOR (NOT a1 AND a2),
     a1 XOR (NOT a2 AND a3),
     a2 XOR (NOT a3 AND a4),
     a3 XOR (NOT a4 AND a0),
     a4 XOR (NOT a0 AND a1),
     a5 XOR (NOT a6 AND a7),
     a6 XOR (NOT a7 AND a8),
     a7 XOR (NOT a8 AND a9),
     a8 XOR (NOT a9 AND a5),
     a9 XOR (NOT a5 AND a6),
     a10 XOR (NOT a11 AND a12),
     a11 XOR (NOT a12 AND a13),
     a12 XOR (NOT a13 AND a14),
     a13 XOR (NOT a14 AND a10),
     a14 XOR (NOT a10 AND a11),
     a15 XOR (NOT a16 AND a17),
     a16 XOR (NOT a17 AND a18),
     a17 XOR (NOT a18 AND a19),
     a18 XOR (NOT a19 AND a15),
     a19 XOR (NOT a15 AND a16),
     a20 XOR (NOT a21 AND a22),
     a21 XOR (NOT a22 AND a23),
     a22 XOR (NOT a23 AND a24),
     a23 XOR (NOT a24 AND a20),
     a24 XOR (NOT a20 AND a21)]"
  by (simp add: chi_def upt25)

lemma iota_eval: "iota rc [a0, a1, a2, a3, a4, a5, a6, a7, a8, a9, a10, a11, a12, a13, a14, a15, a16, a17, a18, a19, a20, a21, a22, a23, a24] =
    [a0 XOR rc,
     a1,
     a2,
     a3,
     a4,
     a5,
     a6,
     a7,
     a8,
     a9,
     a10,
     a11,
     a12,
     a13,
     a14,
     a15,
     a16,
     a17,
     a18,
     a19,
     a20,
     a21,
     a22,
     a23,
     a24]"
  by (simp add: iota_def)

lemmas keccak_eval = theta_c_eval theta_d_eval theta_apply_eval rho_pi_eval chi_eval iota_eval
  keccak_round_def theta_def rotl64_def keccak_f_def round_constants_def

lemma lanes_of_block_eval:
  "lanes_of_block 25 bs = map (\<lambda>i. lane_of_bytes (take 8 (drop (8 * i) bs))) [0..<25]"
proof -
  have "lanes_of_block n (drop (8 * k) bs)
          = map (\<lambda>i. lane_of_bytes (take 8 (drop (8 * i) bs))) [k..<k + n]" for n k
  proof (induction n arbitrary: k)
    case 0
    show ?case by simp
  next
    case (Suc n)
    have "drop 8 (drop (8 * k) bs) = drop (8 * Suc k) bs"
      by (simp add: add.commute)
    with Suc[of "Suc k"] show ?case
      by (simp add: upt_rec[of k])
  qed
  from this[of 25 0] show ?thesis by simp
qed

lemma bytes_of_lane_eval:
  "bytes_of_lane 8 w =
     [word_of_int (take_bit 8 w), word_of_int (take_bit 8 (drop_bit 8 w)),
      word_of_int (take_bit 8 (drop_bit 16 w)), word_of_int (take_bit 8 (drop_bit 24 w)),
      word_of_int (take_bit 8 (drop_bit 32 w)), word_of_int (take_bit 8 (drop_bit 40 w)),
      word_of_int (take_bit 8 (drop_bit 48 w)), word_of_int (take_bit 8 (drop_bit 56 w))]"
  by (simp add: numeral_eq_Suc drop_bit_drop_bit)

lemma replicate_numeral: "replicate (numeral k) x = x # replicate (pred_numeral k) x"
  by (simp add: numeral_eq_Suc)

lemma length_lanes_of_block: "length (lanes_of_block n bs) = n"
  by (induction n arbitrary: bs) simp_all

lemma xor_zero_state: "length ls = 25 \<Longrightarrow> map2 (XOR) (replicate 25 (0::int)) ls = ls"
  by (simp add: list_eq_iff_nth_eq)

lemma keccak256_short:
  "length m < 136 \<Longrightarrow>
   keccak256 m
     = concat (map (bytes_of_lane 8) (take 4 (keccak_f (lanes_of_block 25 (pad_last m)))))"
  by (simp add: keccak256_def absorb.simps absorb_block_def xor_zero_state length_lanes_of_block)


text \<open>Keccak-256 of the empty message, the known answer \<^verbatim>\<open>c5d24601...5d85a470\<close>.\<close>

lemma block_empty:
  "lanes_of_block 25 (pad_last
     [])
   = [1, 0, 0, 0, 0, 0, 0, 0, 0, 0, 0, 0, 0, 0, 0, 0, 9223372036854775808, 0, 0, 0, 0, 0, 0, 0, 0]"
  by (simp add: pad_last_def replicate_numeral lanes_of_block_eval upt25)

lemma keccak256_empty:
  "keccak256
     []
   = [197, 210, 70, 1, 134, 247, 35, 60, 146, 126, 125, 178, 220, 199, 3, 192, 229, 0, 182, 83,
     202, 130, 39, 59, 123, 250, 216, 4, 93, 133, 164, 112]"
  by (simp add: keccak256_short block_empty keccak_eval bytes_of_lane_eval)


text \<open>Keccak-256 of the JSON text of the first payload.\<close>

lemma block_payload_1:
  "lanes_of_block 25 (pad_last
     [123, 34, 115, 101, 114, 105, 97, 108, 78, 117, 109, 98, 101, 114, 34, 58, 34, 83, 78, 48,
     48, 49, 34, 44, 34, 115, 101, 110, 115, 111, 114, 73, 100, 34, 58, 34, 83, 69, 78, 83, 79,
     82, 48, 48, 49, 34, 44, 34, 116, 105, 109, 101, 115, 116, 97, 109, 112, 34, 58, 49, 55, 48,
     54, 52, 56, 57, 54, 49, 52, 44, 34, 114, 101, 97, 100, 105, 110, 103, 115, 34, 58, 123, 34,
     116, 101, 109, 112, 101, 114, 97, 116, 117, 114, 101, 34, 58, 50, 53, 44, 34, 104, 117,
     109, 105, 100, 105, 116, 121, 34, 58, 54, 48, 125, 125])
   = [7809639168886383227, 4189036383176586574, 3180158369915622178, 5292415053677818658,
     6002811576690287204, 2462380690922033743, 7881708861846808948, 3762247552321856112,
     8224184472207505720, 2482441543523524965, 7309462477729856314, 4189022145679221106,
     7596857236554265906, 3474028082303887716, 97661, 0, 9223372036854775808, 0, 0, 0, 0, 0, 0,
     0, 0]"
  by (simp add: pad_last_def replicate_numeral lanes_of_block_eval upt25)

lemma keccak256_payload_1:
  "keccak256
     [123, 34, 115, 101, 114, 105, 97, 108, 78, 117, 109, 98, 101, 114, 34, 58, 34, 83, 78, 48,
     48, 49, 34, 44, 34, 115, 101, 110, 115, 111, 114, 73, 100, 34, 58, 34, 83, 69, 78, 83, 79,
     82, 48, 48, 49, 34, 44, 34, 116, 105, 109, 101, 115, 116, 97, 109, 112, 34, 58, 49, 55, 48,
     54, 52, 56, 57, 54, 49, 52, 44, 34, 114, 101, 97, 100, 105, 110, 103, 115, 34, 58, 123, 34,
     116, 101, 109, 112, 101, 114, 97, 116, 117, 114, 101, 34, 58, 50, 53, 44, 34, 104, 117,
     109, 105, 100, 105, 116, 121, 34, 58, 54, 48, 125, 125]
   = [198, 123, 192, 188, 117, 17, 103, 157, 169, 55, 128, 42, 145, 201, 103, 5, 22, 101, 72, 18,
     128, 76, 75, 108, 247, 9, 141, 63, 97, 69, 102, 52]"
  by (simp add: keccak256_short block_payload_1 keccak_eval bytes_of_lane_eval)


text \<open>Keccak-256 of the JSON text of the second payload.\<close>

lemma block_payload_2:
  "lanes_of_block 25 (pad_last
     [123, 34, 115, 101, 114, 105, 97, 108, 78, 117, 109, 98, 101, 114, 34, 58, 34, 83, 78, 48,
     48, 49, 34, 44, 34, 115, 101, 110, 115, 111, 114, 73, 100, 34, 58, 34, 83, 69, 78, 83, 79,
     82, 48, 48, 49, 34, 44, 34, 116, 105, 109, 101, 115, 116, 97, 109, 112, 34, 58, 49, 55, 48,
     54, 52, 56, 57, 54, 49, 52, 44, 34, 114, 101, 97, 100, 105, 110, 103, 115, 34, 58, 123, 34,
     104, 117, 109, 105, 100, 105, 116, 121, 34, 58, 54, 48, 44, 34, 116, 101, 109, 112, 101,
     114, 97, 116, 117, 114, 101, 34, 58, 50, 53, 125, 125])
   = [7809639168886383227, 4189036383176586574, 3180158369915622178, 5292415053677818658,
     6002811576690287204, 2462380690922033743, 7881708861846808948, 3762247552321856112,
     8224184472207505720, 2482441543523524965, 7235434627373103930, 3184104559865328745,
     7021786302570132514, 3833190152251012468, 97661, 0, 9223372036854775808, 0, 0, 0, 0, 0, 0,
     0, 0]"
  by (simp add: pad_last_def replicate_numeral lanes_of_block_eval upt25)

lemma keccak256_payload_2:
  "keccak256
     [123, 34, 115, 101, 114, 105, 97, 108, 78, 117, 109, 98, 101, 114, 34, 58, 34, 83, 78, 48,
     48, 49, 34, 44, 34, 115, 101, 110, 115, 111, 114, 73, 100, 34, 58, 34, 83, 69, 78, 83, 79,
     82, 48, 48, 49, 34, 44, 34, 116, 105, 109, 101, 115, 116, 97, 109, 112, 34, 58, 49, 55, 48,
     54, 52, 56, 57, 54, 49, 52, 44, 34, 114, 101, 97, 100, 105, 110, 103, 115, 34, 58, 123, 34,
     104, 117, 109, 105, 100, 105, 116, 121, 34, 58, 54, 48, 44, 34, 116, 101, 109, 112, 101,
     114, 97, 116, 117, 114, 101, 34, 58, 50, 53, 125, 125]
   = [202, 90, 99, 193, 32, 47, 113, 32, 153, 129, 137, 139, 119, 237, 216, 94, 127, 15, 105,
     116, 101, 181, 210, 170, 63, 53, 242, 223, 235, 230, 28, 145]"
  by (simp add: keccak256_short block_payload_2 keccak_eval bytes_of_lane_eval)


text \<open>Keccak-256 of the two fingerprints, the first one first.\<close>

lemma block_a_b:
  "lanes_of_block 25 (pad_last
     [198, 123, 192, 188, 117, 17, 103, 157, 169, 55, 128, 42, 145, 201, 103, 5, 22, 101, 72, 18,
     128, 76, 75, 108, 247, 9, 141, 63, 97, 69, 102, 52, 202, 90, 99, 193, 32, 47, 113, 32, 153,
     129, 137, 139, 119, 237, 216, 94, 127, 15, 105, 116, 101, 181, 210, 170, 63, 53, 242, 223,
     235, 230, 28, 145])
   = [11342053383931460550, 389501518111324073, 7803414892295775510, 3775781621577091575,
     2337701499311971018, 6834473532232663449, 12309100178906353535, 10456486335596344639, 1, 0,
     0, 0, 0, 0, 0, 0, 9223372036854775808, 0, 0, 0, 0, 0, 0, 0, 0]"
  by (simp add: pad_last_def replicate_numeral lanes_of_block_eval upt25)

lemma keccak256_a_b:
  "keccak256
     [198, 123, 192, 188, 117, 17, 103, 157, 169, 55, 128, 42, 145, 201, 103, 5, 22, 101, 72, 18,
     128, 76, 75, 108, 247, 9, 141, 63, 97, 69, 102, 52, 202, 90, 99, 193, 32, 47, 113, 32, 153,
     129, 137, 139, 119, 237, 216, 94, 127, 15, 105, 116, 101, 181, 210, 170, 63, 53, 242, 223,
     235, 230, 28, 145]
   = [211, 237, 175, 181, 10, 104, 248, 14, 152, 185, 14, 255, 203, 102, 27, 57, 216, 244, 48,
     64, 94, 64, 135, 0, 44, 159, 112, 171, 89, 106, 86, 57]"
  by (simp add: keccak256_short block_a_b keccak_eval bytes_of_lane_eval)


text \<open>Keccak-256 of the two fingerprints, the second one first.\<close>

lemma block_b_a:
  "lanes_of_block 25 (pad_last
     [202, 90, 99, 193, 32, 47, 113, 32, 153, 129, 137, 139, 119, 237, 216, 94, 127, 15, 105,
     116, 101, 181, 210, 170, 63, 53, 242, 223, 235, 230, 28, 145, 198, 123, 192, 188, 117, 17,
     103, 157, 169, 55, 128, 42, 145, 201, 103, 5, 22, 101, 72, 18, 128, 76, 75, 108, 247, 9,
     141, 63, 97, 69, 102, 52])
   = [2337701499311971018, 6834473532232663449, 12309100178906353535, 10456486335596344639,
     11342053383931460550, 389501518111324073, 7803414892295775510, 3775781621577091575, 1, 0,
     0, 0, 0, 0, 0, 0, 9223372036854775808, 0, 0, 0, 0, 0, 0, 0, 0]"
  by (simp add: pad_last_def replicate_numeral lanes_of_block_eval upt25)

lemma keccak256_b_a:
  "keccak256
     [202, 90, 99, 193, 32, 47, 113, 32, 153, 129, 137, 139, 119, 237, 216, 94, 127, 15, 105,
     116, 101, 181, 210, 170, 63, 53, 242, 223, 235, 230, 28, 145, 198, 123, 192, 188, 117, 17,
     103, 157, 169, 55, 128, 42, 145, 201, 103, 5, 22, 101, 72, 18, 128, 76, 75, 108, 247, 9,
     141, 63, 97, 69, 102, 52]
   = [249, 215, 193, 202, 70, 88, 49, 43, 138, 57, 224, 235, 72, 191, 98, 65, 2, 56, 241, 205,
     114, 116, 0, 132, 81, 162, 52, 140, 120, 39, 247, 15]"
  by (simp add: keccak256_short block_b_a keccak_eval bytes_of_lane_eval)


subsection \<open>The fingerprint\<close>

lemma dataString_payload_1:
  "map of_char (dataString payload_1)
   = ([123, 34, 115, 101, 114, 105, 97, 108, 78, 117, 109, 98, 101, 114, 34, 58, 34, 83, 78, 48,
     48, 49, 34, 44, 34, 115, 101, 110, 115, 111, 114, 73, 100, 34, 58, 34, 83, 69, 78, 83, 79,
     82, 48, 48, 49, 34, 44, 34, 116, 105, 109, 101, 115, 116, 97, 109, 112, 34, 58, 49, 55, 48,
     54, 52, 56, 57, 54, 49, 52, 44, 34, 114, 101, 97, 100, 105, 110, 103, 115, 34, 58, 123, 34,
     116, 101, 109, 112, 101, 114, 97, 116, 117, 114, 101, 34, 58, 50, 53, 44, 34, 104, 117,
     109, 105, 100, 105, 116, 121, 34, 58, 54, 48, 125, 125] :: Buffer)"
  by (simp add: dataString_def payload_1_def json_string_def json_escape_def json_readings_def
      Number_toString_def digits.simps decimal_digit_def)

lemma dataString_payload_2:
  "map of_char (dataString payload_2)
   = ([123, 34, 115, 101, 114, 105, 97, 108, 78, 117, 109, 98, 101, 114, 34, 58, 34, 83, 78, 48,
     48, 49, 34, 44, 34, 115, 101, 110, 115, 111, 114, 73, 100, 34, 58, 34, 83, 69, 78, 83, 79,
     82, 48, 48, 49, 34, 44, 34, 116, 105, 109, 101, 115, 116, 97, 109, 112, 34, 58, 49, 55, 48,
     54, 52, 56, 57, 54, 49, 52, 44, 34, 114, 101, 97, 100, 105, 110, 103, 115, 34, 58, 123, 34,
     104, 117, 109, 105, 100, 105, 116, 121, 34, 58, 54, 48, 44, 34, 116, 101, 109, 112, 101,
     114, 97, 116, 117, 114, 101, 34, 58, 50, 53, 125, 125] :: Buffer)"
  by (simp add: dataString_def payload_2_def json_string_def json_escape_def json_readings_def
      Number_toString_def digits.simps decimal_digit_def)

lemma createDataHash_payload_1:
  "createDataHash payload_1 = ''0xc67bc0bc7511679da937802a91c9670516654812804c4b6cf7098d3f61456634''"
  by (simp add: createDataHash_def dataString_payload_1 keccak256_payload_1
      Buffer_toString_hex_def hex_digit_def)

lemma createDataHash_payload_2:
  "createDataHash payload_2 = ''0xca5a63c1202f71209981898b77edd85e7f0f697465b5d2aa3f35f2dfebe61c91''"
  by (simp add: createDataHash_def dataString_payload_2 keccak256_payload_2
      Buffer_toString_hex_def hex_digit_def)

text \<open>
  Claim C2 says that two readings with the same serial number, sensor, timestamp and
  measurement mapping have the same fingerprint whatever the order of the measurement
  keys.  \<^verbatim>\<open>JSON.stringify\<close> writes the keys in the order of the object, so the two
  payloads, which differ in that order only, hash to different values.
\<close>

theorem fingerprint_key_order_counterexample:
  "serialNumber payload_1 = serialNumber payload_2
   \<and> sensorId payload_1 = sensorId payload_2
   \<and> timestamp payload_1 = timestamp payload_2
   \<and> map_of (readings payload_1) = map_of (readings payload_2)
   \<and> createDataHash payload_1 \<noteq> createDataHash payload_2"
proof -
  have "map_of (readings payload_1) = map_of (readings payload_2)"
    by (auto simp: payload_1_def payload_2_def fun_eq_iff)
  moreover have "createDataHash payload_1 \<noteq> createDataHash payload_2"
    by (simp add: createDataHash_payload_1 createDataHash_payload_2)
  ultimately show ?thesis
    by (simp add: payload_1_def payload_2_def)
qed

text \<open>
  Claim C2, amended.  Two readings with the same serial number, sensor and timestamp and
  the same sequence of measurement entries in the property order of the readings object
  have the same fingerprint, whatever their other fields are.
\<close>

theorem fingerprint_of_same_entries:
  assumes "serialNumber d1 = serialNumber d2" and "sensorId d1 = sensorId d2"
    and "timestamp d1 = timestamp d2" and "readings d1 = readings d2"
  shows "createDataHash d1 = createDataHash d2"
  using assms by (simp add: createDataHash_def dataString_def)

theorem fingerprint_of_same_entries_witness:
  "serialNumber payload_1 = serialNumber reading_a
   \<and> sensorId payload_1 = sensorId reading_a
   \<and> timestamp payload_1 = timestamp reading_a
   \<and> readings payload_1 = readings reading_a
   \<and> createDataHash reading_a = createDataHash payload_1
   \<and> createDataHash reading_a = dataHash reading_a"
  using fingerprint_of_same_entries[of payload_1 reading_a]
  by (simp add: createDataHash_payload_1) (simp add: payload_1_def reading_a_def)

subsection \<open>Proofs of inclusion\<close>

lemma leaf_of_reading_a:
  "leaf_of reading_a
   = [198, 123, 192, 188, 117, 17, 103, 157, 169, 55, 128, 42, 145, 201, 103, 5, 22, 101, 72, 18,
     128, 76, 75, 108, 247, 9, 141, 63, 97, 69, 102, 52]"
  by (simp add: leaf_of_def reading_a_def hex_value_def)

lemma leaf_of_reading_b:
  "leaf_of reading_b
   = [202, 90, 99, 193, 32, 47, 113, 32, 153, 129, 137, 139, 119, 237, 216, 94, 127, 15, 105,
     116, 101, 181, 210, 170, 63, 53, 242, 223, 235, 230, 28, 145]"
  by (simp add: leaf_of_def reading_b_def hex_value_def)

lemma layers_a_b:
  "createHashes keccak256
     [[198, 123, 192, 188, 117, 17, 103, 157, 169, 55, 128, 42, 145, 201, 103, 5, 22, 101, 72, 18,
     128, 76, 75, 108, 247, 9, 141, 63, 97, 69, 102, 52],
      [202, 90, 99, 193, 32, 47, 113, 32, 153, 129, 137, 139, 119, 237, 216, 94, 127, 15, 105,
     116, 101, 181, 210, 170, 63, 53, 242, 223, 235, 230, 28, 145]]
   = [[[198, 123, 192, 188, 117, 17, 103, 157, 169, 55, 128, 42, 145, 201, 103, 5, 22, 101, 72, 18,
     128, 76, 75, 108, 247, 9, 141, 63, 97, 69, 102, 52],
       [202, 90, 99, 193, 32, 47, 113, 32, 153, 129, 137, 139, 119, 237, 216, 94, 127, 15, 105,
     116, 101, 181, 210, 170, 63, 53, 242, 223, 235, 230, 28, 145]],
      [[211, 237, 175, 181, 10, 104, 248, 14, 152, 185, 14, 255, 203, 102, 27, 57, 216, 244, 48,
     64, 94, 64, 135, 0, 44, 159, 112, 171, 89, 106, 86, 57]]]"
  by (simp add: createHashes.simps sorted_concat_def keccak256_a_b)

lemma buildTree_a_b:
  "buildTree [reading_a, reading_b]
   = \<lparr>root = ''0xd3edafb50a68f80e98b90effcb661b39d8f430405e4087002c9f70ab596a5639'',
      tree =
        [[[198, 123, 192, 188, 117, 17, 103, 157, 169, 55, 128, 42, 145, 201, 103, 5, 22, 101, 72, 18,
     128, 76, 75, 108, 247, 9, 141, 63, 97, 69, 102, 52],
          [202, 90, 99, 193, 32, 47, 113, 32, 153, 129, 137, 139, 119, 237, 216, 94, 127, 15, 105,
     116, 101, 181, 210, 170, 63, 53, 242, 223, 235, 230, 28, 145]],
         [[211, 237, 175, 181, 10, 104, 248, 14, 152, 185, 14, 255, 203, 102, 27, 57, 216, 244, 48,
     64, 94, 64, 135, 0, 44, 159, 112, 171, 89, 106, 86, 57]]],
      leaves =
        [[198, 123, 192, 188, 117, 17, 103, 157, 169, 55, 128, 42, 145, 201, 103, 5, 22, 101, 72, 18,
     128, 76, 75, 108, 247, 9, 141, 63, 97, 69, 102, 52],
         [202, 90, 99, 193, 32, 47, 113, 32, 153, 129, 137, 139, 119, 237, 216, 94, 127, 15, 105,
     116, 101, 181, 210, 170, 63, 53, 242, 223, 235, 230, 28, 145]],
      proofs =
        [(''0xc67bc0bc7511679da937802a91c9670516654812804c4b6cf7098d3f61456634'',
          [''0xca5a63c1202f71209981898b77edd85e7f0f697465b5d2aa3f35f2dfebe61c91'']),
         (''0xca5a63c1202f71209981898b77edd85e7f0f697465b5d2aa3f35f2dfebe61c91'',
          [''0xc67bc0bc7511679da937802a91c9670516654812804c4b6cf7098d3f61456634''])]\<rparr>"
  by (simp add: buildTree_def leaf_of_reading_a leaf_of_reading_b layers_a_b getRoot_def)
    (simp add: Buffer_toString_hex_def hex_digit_def proof_entry_def getProof_def sibling_def
      Let_def reading_a_def reading_b_def)

text \<open>
  Claim C1 says that \<open>verifyProof\<close> accepts, for every leaf, the proof and the root that
  \<open>buildTree\<close> made.  For the batch of the two readings the proof of the second reading
  is the fingerprint of the first, and \<open>verifyProof\<close> rejects it: it puts the sibling on
  the right, while the tree hashed the sorted pair.  The same proof passes the library's
  verification with \<^verbatim>\<open>sortPairs\<close>, and the proof of the first reading passes
  \<open>verifyProof\<close>.
\<close>

theorem verifyProof_rejects_built_proof:
  "Map_get (proofs (buildTree [reading_a, reading_b])) (dataHash reading_b)
     = Some [dataHash reading_a]
   \<and> \<not> verifyProof (dataHash reading_b) [dataHash reading_a]
         (root (buildTree [reading_a, reading_b]))
   \<and> MerkleTree_verify keccak256 True
        (getProof (tree (buildTree [reading_a, reading_b])) (leaf_of reading_b))
        (leaf_of reading_b) (getRoot (tree (buildTree [reading_a, reading_b])))
   \<and> Map_get (proofs (buildTree [reading_a, reading_b])) (dataHash reading_a)
       = Some [dataHash reading_b]
   \<and> verifyProof (dataHash reading_a) [dataHash reading_b]
        (root (buildTree [reading_a, reading_b]))"
proof (intro conjI)
  show "Map_get (proofs (buildTree [reading_a, reading_b])) (dataHash reading_b)
          = Some [dataHash reading_a]"
    unfolding buildTree_a_b by (simp add: Map_get_def reading_a_def reading_b_def)
  show "Map_get (proofs (buildTree [reading_a, reading_b])) (dataHash reading_a)
          = Some [dataHash reading_b]"
    unfolding buildTree_a_b by (simp add: Map_get_def reading_a_def reading_b_def)
  show "\<not> verifyProof (dataHash reading_b) [dataHash reading_a]
            (root (buildTree [reading_a, reading_b]))"
    unfolding buildTree_a_b
    by (simp add: reading_a_def reading_b_def verifyProof_def proofObjects_def
        MerkleTree_verify_def hex_value_def keccak256_b_a)
  show "verifyProof (dataHash reading_a) [dataHash reading_b]
          (root (buildTree [reading_a, reading_b]))"
    unfolding buildTree_a_b
    by (simp add: reading_a_def reading_b_def verifyProof_def proofObjects_def
        MerkleTree_verify_def hex_value_def keccak256_a_b)
  show "MerkleTree_verify keccak256 True
          (getProof (tree (buildTree [reading_a, reading_b])) (leaf_of reading_b))
          (leaf_of reading_b) (getRoot (tree (buildTree [reading_a, reading_b])))"
    unfolding buildTree_a_b leaf_of_reading_b
    by (simp add: getProof_def sibling_def getRoot_def Let_def MerkleTree_verify_def
        keccak256_a_b)
qed

subsection \<open>Verification with sorted pairs\<close>

text \<open>
  The proofs of \<open>buildTree\<close> are right for the tree it makes: folded into the leaf with
  each pair sorted, as the library does with \<^verbatim>\<open>sortPairs\<close> and the contract in
  \<^verbatim>\<open>_verifyMerkleProof\<close>, they give the root.  This holds for every hash function.
\<close>

lemma Buffer_compare_swap: "Buffer_compare b a = - Buffer_compare a b"
  by (induction a b rule: Buffer_compare.induct) auto

lemma Buffer_compare_range: "Buffer_compare a b = -1 \<or> Buffer_compare a b = 0 \<or> Buffer_compare a b = 1"
  by (induction a b rule: Buffer_compare.induct) auto

lemma sorted_pair_left:
  "(if Buffer_compare l r = -1 then h (l @ r) else h (r @ l)) = h (sorted_concat l r)"
  using Buffer_compare_range[of l r] Buffer_compare_eq_0[of l r]
  by (auto simp: sorted_concat_def)

lemma sorted_pair_right:
  "(if Buffer_compare r l = -1 then h (r @ l) else h (l @ r)) = h (sorted_concat l r)"
  using Buffer_compare_range[of l r] Buffer_compare_eq_0[of l r] Buffer_compare_swap[of r l]
  by (auto simp: sorted_concat_def)

lemma length_next_layer: "length (next_layer h ns) = (length ns + 1) div 2"
  by (induction h ns rule: next_layer.induct) simp_all

lemma next_layer_nth_even:
  "2 * k + 1 < length ns \<Longrightarrow>
   next_layer h ns ! k = h (sorted_concat (ns ! (2 * k)) (ns ! (2 * k + 1)))"
proof (induction h ns arbitrary: k rule: next_layer.induct)
  case (1 h l r rest)
  show ?case
  proof (cases k)
    case 0
    then show ?thesis by simp
  next
    case (Suc j)
    with "1.prems" have "2 * j + 1 < length rest" by simp
    from "1.IH"[OF this] Suc show ?thesis by simp
  qed
qed simp_all

lemma next_layer_nth_last:
  "2 * k + 1 = length ns \<Longrightarrow> next_layer h ns ! k = ns ! (2 * k)"
proof (induction h ns arbitrary: k rule: next_layer.induct)
  case (1 h l r rest)
  show ?case
  proof (cases k)
    case 0
    with "1.prems" show ?thesis by simp
  next
    case (Suc j)
    with "1.prems" have "2 * j + 1 = length rest" by simp
    from "1.IH"[OF this] Suc show ?thesis by simp
  qed
qed simp_all

lemma verify_fold_append:
  "verify_fold h s (xs @ ys) hash = verify_fold h s ys (verify_fold h s xs hash)"
  by (induction xs arbitrary: hash) simp_all

lemma createHashes_not_Nil: "createHashes h ns \<noteq> []"
  by (subst createHashes.simps) simp

lemma getRoot_Cons: "rest \<noteq> [] \<Longrightarrow> getRoot (ns # rest) = getRoot rest"
  by (simp add: getRoot_def)

lemma verify_left_sibling:
  "verify_fold h True [\<lparr>position = p, node_data = l\<rparr>] r = h (sorted_concat l r)"
  by (simp only: verify_fold.simps if_True ProofItem.select_convs sorted_pair_right)

lemma verify_right_sibling:
  "verify_fold h True [\<lparr>position = p, node_data = r\<rparr>] l = h (sorted_concat l r)"
  by (simp only: verify_fold.simps if_True ProofItem.select_convs sorted_pair_left)

lemma walk_step:
  assumes "i < length ns" and "1 < length ns"
  shows "verify_fold h True (sibling ns i) (ns ! i) = next_layer h ns ! (i div 2)"
proof (cases "i mod 2 = 1")
  case True
  define k where "k = i div 2"
  from True have i: "i = 2 * k + 1"
    unfolding k_def by presburger
  with assms have less: "2 * k + 1 < length ns"
    by simp
  have sib: "sibling ns i = [\<lparr>position = Left, node_data = ns ! (2 * k)\<rparr>]"
    using less by (simp add: sibling_def i)
  have "i div 2 = k"
    by (simp add: k_def)
  then show ?thesis
    unfolding sib using next_layer_nth_even[OF less, of h]
    by (simp only: verify_left_sibling i)
next
  case False
  define k where "k = i div 2"
  from False have i: "i = 2 * k"
    unfolding k_def by presburger
  have k: "i div 2 = k"
    by (simp add: k_def)
  show ?thesis
  proof (cases "i + 1 < length ns")
    case True
    with i have less: "2 * k + 1 < length ns"
      by simp
    have sib: "sibling ns i = [\<lparr>position = Right, node_data = ns ! (2 * k + 1)\<rparr>]"
      using less by (simp add: sibling_def i)
    show ?thesis
      unfolding sib k using next_layer_nth_even[OF less, of h]
      by (simp only: verify_right_sibling i)
  next
    case False
    with assms i have last: "2 * k + 1 = length ns"
      by simp
    have sib: "sibling ns i = []"
      using last by (simp add: sibling_def i)
    show ?thesis
      unfolding sib k using next_layer_nth_last[OF last, of h]
      by (simp add: i)
  qed
qed

lemma proof_walk_verifies:
  "ns \<noteq> [] \<Longrightarrow> i < length ns \<Longrightarrow>
   verify_fold h True (proof_walk (createHashes h ns) i) (ns ! i) = getRoot (createHashes h ns)"
proof (induction h ns arbitrary: i rule: createHashes.induct)
  case (1 h nodes)
  show ?case
  proof (cases "1 < length nodes")
    case False
    with "1.prems" obtain x where x: "nodes = [x]"
      by (cases nodes) auto
    with "1.prems" have "i = 0"
      by simp
    with x show ?thesis
      by (simp add: createHashes.simps[of h "[x]"] getRoot_def sibling_def)
  next
    case True
    have len: "length (next_layer h nodes) = (length nodes + 1) div 2"
      by (rule length_next_layer)
    with True have ne: "next_layer h nodes \<noteq> []"
      by (cases "next_layer h nodes") auto
    have lt: "i div 2 < length (next_layer h nodes)"
      using "1.prems" len by linarith
    have ch: "createHashes h nodes = nodes # createHashes h (next_layer h nodes)"
      using True by (subst createHashes.simps) simp
    from "1.IH"[OF True ne lt] walk_step[OF "1.prems"(2) True, of h]
    show ?thesis
      by (simp add: ch verify_fold_append getRoot_Cons createHashes_not_Nil)
  qed
qed

lemma find_leaf_index_found:
  "find_leaf_index leaf ls i found = Some j \<Longrightarrow>
   found = Some j \<or> (i \<le> j \<and> j < i + length ls \<and> ls ! (j - i) = leaf)"
proof (induction ls arbitrary: i found)
  case Nil
  then show ?case by simp
next
  case (Cons l ls)
  from Cons.IH[OF Cons.prems[simplified]] show ?case
    by (auto simp: Buffer_compare_eq_0 nth_Cons' split: if_splits)
qed

lemma find_leaf_index_member:
  "leaf \<in> set ls \<or> found \<noteq> None \<Longrightarrow> find_leaf_index leaf ls i found \<noteq> None"
  by (induction ls arbitrary: i found) (auto simp: Buffer_compare_eq_0)

lemma hd_createHashes: "hd (createHashes h ns) = ns"
  by (subst createHashes.simps) simp

lemma sorted_pairs_verification:
  assumes "leaf \<in> set lvs"
  shows "MerkleTree_verify h True (getProof (createHashes h lvs) leaf) leaf
           (getRoot (createHashes h lvs))"
proof -
  from assms find_leaf_index_member[of leaf lvs None 0]
  obtain j where j: "find_leaf_index leaf lvs 0 None = Some j"
    by auto
  from find_leaf_index_found[OF this] have "j < length lvs" and "lvs ! j = leaf"
    by auto
  moreover from assms have "lvs \<noteq> []"
    by auto
  ultimately show ?thesis
    using proof_walk_verifies[of lvs j h]
    by (simp add: MerkleTree_verify_def getProof_def hd_createHashes j Buffer_compare_eq_0)
qed

text \<open>
  For every reading of a batch, the proof that the tree of \<open>buildTree\<close> gives for the
  leaf of the reading verifies against the root of the tree when the pairs are sorted.
\<close>

theorem buildTree_proofs_verify_sorted:
  assumes "item \<in> set dat"
  shows "MerkleTree_verify keccak256 True
           (getProof (tree (buildTree dat)) (leaf_of item)) (leaf_of item)
           (getRoot (tree (buildTree dat)))"
  using assms sorted_pairs_verification[of "leaf_of item" "map leaf_of dat" keccak256]
  by (simp add: buildTree_def Let_def)

theorem buildTree_proofs_verify_sorted_witness:
  "reading_b \<in> set [reading_a, reading_b]
   \<and> MerkleTree_verify keccak256 True
        (getProof (tree (buildTree [reading_a, reading_b])) (leaf_of reading_b))
        (leaf_of reading_b) (getRoot (tree (buildTree [reading_a, reading_b])))"
  using buildTree_proofs_verify_sorted[of reading_b "[reading_a, reading_b]"]
  by simp

subsection \<open>One submission at a time\<close>

lemma submit_finally_flags:
  "isSubmitting (submit_finally st) = False" "inFlight (submit_finally st) = inFlight st"
  by (simp_all add: submit_finally_def Let_def split: list.splits)

lemma submit_call_invariant:
  "isSubmitting st = (inFlight st \<noteq> None) \<Longrightarrow>
   isSubmitting (submit_call st b c) = (inFlight (submit_call st b c) \<noteq> None)"
  by (auto simp: submit_call_def submit_finally_flags)

lemma step_invariant:
  "isSubmitting st = (inFlight st \<noteq> None) \<Longrightarrow>
   isSubmitting (step st ev) = (inFlight (step st ev) \<noteq> None)"
proof (cases ev)
  case (ProcessRollup batch)
  assume "isSubmitting st = (inFlight st \<noteq> None)"
  then show ?thesis
    using submit_call_invariant
      [of "st\<lparr>db := storeBatch (db st) (attach_tree batch)\<rparr>" "attach_tree batch"
        FromProcessRollup]
    by (simp add: ProcessRollup processRollup_call_def Let_def)
next
  case (RelayerSettles outcome now)
  assume "isSubmitting st = (inFlight st \<noteq> None)"
  then show ?thesis
    by (auto simp: RelayerSettles relayer_settles_def Let_def submit_finally_flags
        split: option.splits Outcome.splits Caller.splits)
next
  case TimerFires
  assume inv: "isSubmitting st = (inFlight st \<noteq> None)"
  show ?thesis
  proof (cases "timers st")
    case Nil
    with inv show ?thesis
      by (simp add: TimerFires timer_fires_def)
  next
    case (Cons b rest)
    with inv submit_call_invariant[of "st\<lparr>timers := rest\<rparr>" b FromTimer] show ?thesis
      by (simp add: TimerFires timer_fires_def)
  qed
qed

text \<open>
  In every state the engine reaches from its initial state, \<open>isSubmitting\<close> is set
  exactly while a relayer call is outstanding, so a call starts only when no other one
  is in flight.
\<close>

theorem single_submission_in_flight:
  "isSubmitting (run initial_state evs) = (inFlight (run initial_state evs) \<noteq> None)"
proof -
  have "isSubmitting st = (inFlight st \<noteq> None) \<Longrightarrow>
        isSubmitting (foldl step st evs) = (inFlight (foldl step st evs) \<noteq> None)" for st
    by (induction evs arbitrary: st) (simp_all add: step_invariant)
  then show ?thesis
    by (simp add: run_def initial_state_def)
qed

end
